theory Spec2Isabelle
  imports Main "HOL-Library.Multiset"
begin

section \<open>Alias analysis of the tensor-program compiler\<close>

text \<open>
  A shallow embedding of \<^verbatim>\<open>csrc/alias_analysis.cpp\<close> and
  \<^verbatim>\<open>csrc/multidevice/device_mesh.h\<close>. Pointers to IR nodes are modelled by the
  nodes themselves, each carrying a unique name, so that equality of records is
  identity of objects. Every exception and every out-of-range access of the source is a
  value of the type \<open>error\<close>.
\<close>

subsection \<open>Errors\<close>

datatype error =
    NvfError             \<comment> \<open>a failed \<^verbatim>\<open>NVF_ERROR\<close> or \<^verbatim>\<open>NVF_CHECK\<close>\<close>
  | OutOfRange           \<comment> \<open>\<^verbatim>\<open>std::out_of_range\<close> thrown by \<^verbatim>\<open>at\<close>\<close>
  | UndefinedBehavior    \<comment> \<open>\<^verbatim>\<open>operator[]\<close> outside a vector, \<^verbatim>\<open>*\<close> on an empty optional\<close>

definition vec_at :: "'a list \<Rightarrow> nat \<Rightarrow> error + 'a" where
  "vec_at xs i = (if i < length xs then Inr (xs ! i) else Inl UndefinedBehavior)"

definition map_at :: "('k \<rightharpoonup> 'v) \<Rightarrow> 'k \<Rightarrow> error + 'v" where
  "map_at m k = (case m k of None \<Rightarrow> Inl OutOfRange | Some v \<Rightarrow> Inr v)"

subsection \<open>IR nodes\<close>

text \<open>
  Modelled from the spec: \<^verbatim>\<open>IterDomain\<close> and \<^verbatim>\<open>TensorView\<close> are declared in
  \<^verbatim>\<open>ir/internal_base_nodes.h\<close> and \<^verbatim>\<open>ir/interface_nodes.h\<close>. A dimension has an
  identity, a kind and optionally an expanded extent; a tensor has a root domain, an
  rfactor domain and an allocation domain (the last two empty when not set), a
  contiguity sequence and the flags marking it as a graph input or output.
\<close>

record IterDomain =
  id_name :: nat
  isReduction :: bool
  isBroadcast :: bool
  hasExpandedExtent :: bool

record TensorView =
  tv_name :: nat
  getRootDomain :: "IterDomain list"
  getRFactorDomain :: "IterDomain list"
  getAllocationDomain :: "IterDomain list"
  getContiguity :: "bool option list"
  isFusionInput :: bool
  isFusionOutput :: bool

definition getMaybeRFactorDomain :: "TensorView \<Rightarrow> IterDomain list" where
  "getMaybeRFactorDomain tv =
     (if getRFactorDomain tv = [] then getRootDomain tv else getRFactorDomain tv)"

definition getMaybeAllocationDomain :: "TensorView \<Rightarrow> IterDomain list" where
  "getMaybeAllocationDomain tv =
     (if getAllocationDomain tv = [] then getMaybeRFactorDomain tv
      else getAllocationDomain tv)"

subsection \<open>Contiguity of split and merge\<close>

definition splitContiguity :: "bool option \<Rightarrow> bool option \<times> bool option" where
  "splitContiguity contiguity =
     (case contiguity of
        None \<Rightarrow> (None, None)
      | Some c \<Rightarrow> if c then (Some True, Some True) else (Some True, Some False))"

definition mergeContiguity ::
  "IterDomain \<Rightarrow> bool option \<Rightarrow> IterDomain \<Rightarrow> bool option \<Rightarrow> error + (bool \<times> bool option)"
where
  "mergeContiguity outer_id outer_contiguity inner_id inner_contiguity =
     (if outer_contiguity = None \<and> \<not> hasExpandedExtent outer_id then
        Inr (True, inner_contiguity)
      else if inner_contiguity = None \<and> \<not> hasExpandedExtent inner_id then
        Inr (True, outer_contiguity)
      else if hasExpandedExtent outer_id \<and> hasExpandedExtent inner_id then
        Inr (True, None)
      else if hasExpandedExtent outer_id \<or> hasExpandedExtent inner_id then
        Inr (False, None)
      else
        (case outer_contiguity of
           None \<Rightarrow> Inl UndefinedBehavior
         | Some c \<Rightarrow> if c then Inr (True, inner_contiguity) else Inr (False, None)))"

text \<open>A split followed by the merge of its two children, on the same dimensions.\<close>

definition split_then_merge ::
  "IterDomain \<Rightarrow> IterDomain \<Rightarrow> bool option \<Rightarrow> error + (bool \<times> bool option)"
where
  "split_then_merge outer_id inner_id c =
     (case splitContiguity c of
        (outer_contiguity, inner_contiguity) \<Rightarrow>
          mergeContiguity outer_id outer_contiguity inner_id inner_contiguity)"

subsection \<open>Layout\<close>

record Layout =
  allocation_domain :: "IterDomain list"
  contiguity :: "bool option list"

definition contiguityIsCompliant :: "bool option \<Rightarrow> bool option \<Rightarrow> bool" where
  "contiguityIsCompliant actual required =
     (if actual = Some True \<and> required = Some False then True else actual = required)"

text \<open>The loop of \<^verbatim>\<open>isCompliantWith\<close> over the indices of the allocation domain.\<close>

fun compliant_loop :: "bool option list \<Rightarrow> bool option list \<Rightarrow> nat list \<Rightarrow> error + bool" where
  "compliant_loop actual required [] = Inr True"
| "compliant_loop actual required (i # rest) =
     (case vec_at actual i of
        Inl e \<Rightarrow> Inl e
      | Inr a \<Rightarrow>
          (case vec_at required i of
             Inl e \<Rightarrow> Inl e
           | Inr r \<Rightarrow>
               if \<not> contiguityIsCompliant a r then Inr False
               else compliant_loop actual required rest))"

definition isCompliantWith :: "Layout \<Rightarrow> Layout \<Rightarrow> error + bool" where
  "isCompliantWith this required =
     (if allocation_domain required = [] then Inr True
      else if allocation_domain this \<noteq> allocation_domain required then Inr False
      else compliant_loop (contiguity this) (contiguity required)
             [0..<length (allocation_domain this)])"

subsection \<open>The analysis result\<close>

datatype Val = TensorViewVal TensorView | OtherVal nat

record AliasAnalysisResult =
  alias_to_source :: "TensorView \<rightharpoonup> (TensorView \<times> Layout)"
  out_to_root :: "TensorView \<rightharpoonup> TensorView"

definition empty_result :: AliasAnalysisResult where
  "empty_result = \<lparr>alias_to_source = Map.empty, out_to_root = Map.empty\<rparr>"

text \<open>\<^verbatim>\<open>emplace\<close> inserts only when the key is absent; the assertion is on \<^verbatim>\<open>inserted\<close>.\<close>

definition add ::
  "AliasAnalysisResult \<Rightarrow> TensorView \<Rightarrow> TensorView \<Rightarrow> Layout \<Rightarrow> error + AliasAnalysisResult"
where
  "add a alias source layout =
     (case alias_to_source a alias of
        Some _ \<Rightarrow> Inl NvfError
      | None \<Rightarrow> Inr (a\<lparr>alias_to_source := (alias_to_source a)(alias \<mapsto> (source, layout))\<rparr>))"

text \<open>
  The do-while loop of \<^verbatim>\<open>findNearestAliasedIo\<close>, which reads only
  \<^verbatim>\<open>alias_to_source_\<close>. The outer option is \<open>None\<close> when the loop does not end;
  the inner option is the returned pointer, \<open>None\<close> for \<^verbatim>\<open>nullptr\<close>.
\<close>

partial_function (option) findNearestAliasedIo_loop ::
  "(TensorView \<rightharpoonup> (TensorView \<times> Layout)) \<Rightarrow> TensorView \<Rightarrow> TensorView option option"
where
  "findNearestAliasedIo_loop m root =
     (case m root of
        None \<Rightarrow> Some None
      | Some sl \<Rightarrow>
          if \<not> isFusionInput (fst sl) \<and> \<not> isFusionOutput (fst sl)
          then findNearestAliasedIo_loop m (fst sl)
          else Some (Some (fst sl)))"

definition findNearestAliasedIo ::
  "AliasAnalysisResult \<Rightarrow> TensorView \<Rightarrow> TensorView option option"
where
  "findNearestAliasedIo a fusion_out = findNearestAliasedIo_loop (alias_to_source a) fusion_out"

definition getNearestAliasedIo :: "AliasAnalysisResult \<Rightarrow> TensorView \<Rightarrow> TensorView option" where
  "getNearestAliasedIo a fusion_out = out_to_root a fusion_out"

definition preferredLayout :: "AliasAnalysisResult \<Rightarrow> Val \<Rightarrow> error + Layout" where
  "preferredLayout a v =
     (case v of
        OtherVal _ \<Rightarrow> Inl NvfError
      | TensorViewVal tv \<Rightarrow>
          (case alias_to_source a tv of
             Some sl \<Rightarrow> Inr (snd sl)
           | None \<Rightarrow>
               Inr \<lparr>allocation_domain = getMaybeAllocationDomain tv,
                    contiguity = getContiguity tv\<rparr>))"

definition okToRelayout :: "TensorView \<Rightarrow> Layout \<Rightarrow> bool \<Rightarrow> error + bool" where
  "okToRelayout out new_layout can_override_empty_allocation_domain =
     (let out_allocation =
            (if can_override_empty_allocation_domain then getAllocationDomain out
             else getMaybeAllocationDomain out)
      in isCompliantWith new_layout
           \<lparr>allocation_domain = out_allocation, contiguity = getContiguity out\<rparr>)"

fun filterByType_TensorView :: "Val list \<Rightarrow> TensorView list" where
  "filterByType_TensorView [] = []"
| "filterByType_TensorView (TensorViewVal tv # vs) = tv # filterByType_TensorView vs"
| "filterByType_TensorView (OtherVal _ # vs) = filterByType_TensorView vs"

text \<open>
  The loop of \<^verbatim>\<open>finalize\<close> over the output tensors. The result is \<open>None\<close> when a chain
  walk does not end.
\<close>

fun finalize_loop ::
  "bool \<Rightarrow> TensorView list \<Rightarrow> AliasAnalysisResult \<Rightarrow> (error + AliasAnalysisResult) option"
where
  "finalize_loop flag [] a = Some (Inr a)"
| "finalize_loop flag (out # outs) a =
     (case findNearestAliasedIo a out of
        None \<Rightarrow> None
      | Some None \<Rightarrow> finalize_loop flag outs a
      | Some (Some root) \<Rightarrow>
          (case preferredLayout a (TensorViewVal out) of
             Inl e \<Rightarrow> Some (Inl e)
           | Inr preferred_layout \<Rightarrow>
               (case okToRelayout out preferred_layout flag of
                  Inl e \<Rightarrow> Some (Inl e)
                | Inr ok \<Rightarrow>
                    if \<not> ok then finalize_loop flag outs a
                    else finalize_loop flag outs
                           (a\<lparr>out_to_root := (out_to_root a)(out \<mapsto> root)\<rparr>))))"

definition finalize ::
  "AliasAnalysisResult \<Rightarrow> Val list \<Rightarrow> bool \<Rightarrow> (error + AliasAnalysisResult) option"
where
  "finalize a fusion_outputs can_override_empty_allocation_domain =
     finalize_loop can_override_empty_allocation_domain
       (filterByType_TensorView fusion_outputs) a"

subsection \<open>External collaborators of the rules\<close>

text \<open>
  Modelled from the spec: \<^verbatim>\<open>ir_utils::computePermutation\<close> (declared in
  \<^verbatim>\<open>ir/utils.h\<close>) has a value exactly when its second argument is a permutation of
  its first; the value lists, for each element of the second, its position in the first.
\<close>

fun is_permutation :: "'a list \<Rightarrow> 'a list \<Rightarrow> bool" where
  "is_permutation [] ys = (ys = [])"
| "is_permutation (x # xs) ys = (x \<in> set ys \<and> is_permutation xs (remove1 x ys))"

fun std_find :: "'a list \<Rightarrow> 'a \<Rightarrow> nat" where
  "std_find [] e = 0"
| "std_find (x # xs) e = (if x = e then 0 else Suc (std_find xs e))"

definition computePermutation :: "'a list \<Rightarrow> 'a list \<Rightarrow> nat list option" where
  "computePermutation inp out =
     (if is_permutation inp out then Some (map (std_find inp) out) else None)"

text \<open>
  Modelled from the spec: \<^verbatim>\<open>LinkedHashMap\<close> (declared in \<^verbatim>\<open>linked_hash_map.h\<close>) is
  an ordered associative sequence with insert, erase and lookup by key that keeps the
  relative order of its entries. An iterator is the key of the entry it points to,
  \<open>None\<close> for \<^verbatim>\<open>end()\<close>. \<^verbatim>\<open>erase\<close> returns the value of the key and the iterator
  following the removed entry; \<^verbatim>\<open>insert\<close> puts a new entry before the position.
  Erasing an absent key and inserting a present one fail.
\<close>

type_synonym ('k, 'v) LinkedHashMap = "('k \<times> 'v) list"

fun lhm_erase :: "('k, 'v) LinkedHashMap \<Rightarrow> 'k \<Rightarrow> error + ('v \<times> 'k option \<times> ('k, 'v) LinkedHashMap)" where
  "lhm_erase [] key = Inl OutOfRange"
| "lhm_erase ((k, v) # rest) key =
     (if k = key then Inr (v, (case rest of [] \<Rightarrow> None | (k', _) # _ \<Rightarrow> Some k'), rest)
      else (case lhm_erase rest key of
              Inl e \<Rightarrow> Inl e
            | Inr (v', next, rest') \<Rightarrow> Inr (v', next, (k, v) # rest')))"

fun insert_before :: "'k option \<Rightarrow> 'k \<times> 'v \<Rightarrow> ('k, 'v) LinkedHashMap \<Rightarrow> ('k, 'v) LinkedHashMap" where
  "insert_before position entry [] = [entry]"
| "insert_before position entry ((k, v) # rest) =
     (if position = Some k then entry # (k, v) # rest
      else (k, v) # insert_before position entry rest)"

definition lhm_insert ::
  "('k, 'v) LinkedHashMap \<Rightarrow> 'k option \<Rightarrow> 'k \<Rightarrow> 'v \<Rightarrow> error + ('k, 'v) LinkedHashMap"
where
  "lhm_insert m position key val =
     (if key \<in> fst ` set m then Inl NvfError
      else Inr (insert_before position (key, val) m))"

definition lhm_pushBack ::
  "('k, 'v) LinkedHashMap \<Rightarrow> 'k \<Rightarrow> 'v \<Rightarrow> error + ('k, 'v) LinkedHashMap"
where
  "lhm_pushBack m key val = lhm_insert m None key val"

text \<open>
  The dimension transformations that \<^verbatim>\<open>DependencyCheck::getAllExprsBetween\<close> returns:
  \<open>Split in outer inner\<close>, \<open>Merge outer inner out\<close>, and anything else.
\<close>

datatype IdExpr =
    Split IterDomain IterDomain IterDomain
  | Merge IterDomain IterDomain IterDomain
  | OtherIdExpr

text \<open>
  An operation carries its tensors and the answers of the external queries the rule
  makes on it: the producer-to-consumer and consumer-to-producer maps of
  \<^verbatim>\<open>PairwiseRootDomainMap(in, out)\<close>, the transformations between the output's root and
  rfactor domains, whether a \<^verbatim>\<open>Resize\<close> lies between the output's root domain and a
  dimension, and which output positions a broadcast adds.
\<close>

record ViewOp =
  view_in :: TensorView
  view_out :: TensorView
  view_mapProducerToConsumer :: "IterDomain \<rightharpoonup> IterDomain"
  view_mapConsumerToProducer :: "IterDomain \<rightharpoonup> IterDomain"
  view_exprsBetween :: "IdExpr list"

record LoadStoreOp =
  permute_in :: Val
  permute_out :: TensorView
  permute_mapProducerToConsumer :: "IterDomain \<rightharpoonup> IterDomain"

record SliceOp =
  slice_in :: TensorView
  slice_out :: TensorView
  slice_mapProducerToConsumer :: "IterDomain \<rightharpoonup> IterDomain"
  slice_hasResize :: "IterDomain \<Rightarrow> bool"

record BroadcastOp =
  bcast_in :: Val
  bcast_out :: TensorView
  bcast_mapProducerToConsumer :: "IterDomain \<rightharpoonup> IterDomain"
  isBroadcastDim :: "nat \<Rightarrow> bool"

record SqueezeOp =
  squeeze_in :: Val
  squeeze_out :: TensorView
  squeeze_mapProducerToConsumer :: "IterDomain \<rightharpoonup> IterDomain"

datatype Expr =
    IsViewOp ViewOp
  | IsLoadStoreOp LoadStoreOp
  | IsSliceOp SliceOp
  | IsBroadcastOp BroadcastOp
  | IsSqueezeOp SqueezeOp
  | IsOtherOp

definition push_back :: "Layout \<Rightarrow> IterDomain \<Rightarrow> bool option \<Rightarrow> Layout" where
  "push_back layout d c =
     \<lparr>allocation_domain = allocation_domain layout @ [d],
      contiguity = contiguity layout @ [c]\<rparr>"

definition empty_layout :: Layout where
  "empty_layout = \<lparr>allocation_domain = [], contiguity = []\<rparr>"

subsection \<open>The view rule\<close>

definition map_or_identity :: "(IterDomain \<rightharpoonup> IterDomain) \<Rightarrow> IterDomain \<Rightarrow> IterDomain" where
  "map_or_identity m d = (case m d of None \<Rightarrow> d | Some d' \<Rightarrow> d')"

text \<open>The first loop: the allocation order of the input without reduction dimensions.\<close>

fun collect_allocation ::
  "Layout \<Rightarrow> nat list \<Rightarrow> (IterDomain, bool option) LinkedHashMap
   \<Rightarrow> error + (IterDomain, bool option) LinkedHashMap"
where
  "collect_allocation in_layout [] m = Inr m"
| "collect_allocation in_layout (i # rest) m =
     (let in_allocation_id = allocation_domain in_layout ! i in
      if isReduction in_allocation_id then collect_allocation in_layout rest m
      else (case vec_at (contiguity in_layout) i of
              Inl e \<Rightarrow> Inl e
            | Inr c \<Rightarrow>
                (case lhm_pushBack m in_allocation_id c of
                   Inl e \<Rightarrow> Inl e
                 | Inr m' \<Rightarrow> collect_allocation in_layout rest m')))"

text \<open>
  The body of the replay loop for one transformation. Its result is \<open>Inr None\<close> when
  the rule returns from inside the loop, \<open>Inr (Some m)\<close> when the loop goes on with the
  map \<open>m\<close>.
\<close>

fun replay_step ::
  "(IterDomain \<rightharpoonup> IterDomain) \<Rightarrow> IdExpr \<Rightarrow> (IterDomain, bool option) LinkedHashMap
   \<Rightarrow> error + (IterDomain, bool option) LinkedHashMap option"
where
  "replay_step out_root_to_in_rfactor (Split s_in s_outer s_inner) m =
     (let split_in = map_or_identity out_root_to_in_rfactor s_in in
      case lhm_erase m split_in of
        Inl e \<Rightarrow> Inl e
      | Inr (split_contiguity, split_i, m1) \<Rightarrow>
          (case splitContiguity split_contiguity of
             (outer_contiguity, inner_contiguity) \<Rightarrow>
               (case lhm_insert m1 split_i s_outer outer_contiguity of
                  Inl e \<Rightarrow> Inl e
                | Inr m2 \<Rightarrow>
                    (case lhm_insert m2 split_i s_inner inner_contiguity of
                       Inl e \<Rightarrow> Inl e
                     | Inr m3 \<Rightarrow> Inr (Some m3)))))"
| "replay_step out_root_to_in_rfactor (Merge m_outer m_inner m_out) m =
     (let merge_inner = map_or_identity out_root_to_in_rfactor m_inner;
          merge_outer = map_or_identity out_root_to_in_rfactor m_outer in
      case lhm_erase m merge_outer of
        Inl e \<Rightarrow> Inl e
      | Inr (outer_contiguity, inner_i, m1) \<Rightarrow>
          if inner_i \<noteq> Some merge_inner then Inr None
          else
            (case lhm_erase m1 merge_inner of
               Inl e \<Rightarrow> Inl e
             | Inr (inner_contiguity, merge_i, m2) \<Rightarrow>
                 (case mergeContiguity merge_outer outer_contiguity merge_inner inner_contiguity of
                    Inl e \<Rightarrow> Inl e
                  | Inr (mergeable, merged_contiguity) \<Rightarrow>
                      if \<not> mergeable then Inr None
                      else
                        (case lhm_insert m2 merge_i m_out merged_contiguity of
                           Inl e \<Rightarrow> Inl e
                         | Inr m3 \<Rightarrow> Inr (Some m3)))))"
| "replay_step out_root_to_in_rfactor OtherIdExpr m = Inl NvfError"

text \<open>The replay loop over the transformations, in their order.\<close>

fun replay ::
  "(IterDomain \<rightharpoonup> IterDomain) \<Rightarrow> IdExpr list \<Rightarrow> (IterDomain, bool option) LinkedHashMap
   \<Rightarrow> error + (IterDomain, bool option) LinkedHashMap option"
where
  "replay out_root_to_in_rfactor [] m = Inr (Some m)"
| "replay out_root_to_in_rfactor (transform # rest) m =
     (case replay_step out_root_to_in_rfactor transform m of
        Inl e \<Rightarrow> Inl e
      | Inr None \<Rightarrow> Inr None
      | Inr (Some m') \<Rightarrow> replay out_root_to_in_rfactor rest m')"

fun layout_of_map ::
  "(IterDomain \<rightharpoonup> IterDomain) \<Rightarrow> (IterDomain, bool option) LinkedHashMap \<Rightarrow> Layout \<Rightarrow> Layout"
where
  "layout_of_map in_rfactor_to_out_root [] out_layout = out_layout"
| "layout_of_map in_rfactor_to_out_root ((allocation_id, c) # rest) out_layout =
     layout_of_map in_rfactor_to_out_root rest
       (push_back out_layout (map_or_identity in_rfactor_to_out_root allocation_id) c)"

definition handle_ViewOp :: "AliasAnalysisResult \<Rightarrow> ViewOp \<Rightarrow> error + AliasAnalysisResult" where
  "handle_ViewOp analysis view =
     (let inp = view_in view; out = view_out view;
          in_rfactor = getMaybeRFactorDomain inp in
      case preferredLayout analysis (TensorViewVal inp) of
        Inl e \<Rightarrow> Inl e
      | Inr in_layout \<Rightarrow>
          if computePermutation in_rfactor (allocation_domain in_layout) = None then Inr analysis
          else
            (case collect_allocation in_layout [0..<length (allocation_domain in_layout)] [] of
               Inl e \<Rightarrow> Inl e
             | Inr allocation_to_contiguity \<Rightarrow>
                 (case replay (view_mapConsumerToProducer view) (view_exprsBetween view)
                         allocation_to_contiguity of
                    Inl e \<Rightarrow> Inl e
                  | Inr None \<Rightarrow> Inr analysis
                  | Inr (Some allocation_to_contiguity') \<Rightarrow>
                      add analysis out inp
                        (layout_of_map (view_mapProducerToConsumer view)
                           allocation_to_contiguity' empty_layout))))"

subsection \<open>The permute, broadcast and squeeze rules\<close>

text \<open>
  The loop that the permute rule and the broadcast rule both run over the input's
  allocation domain: reduction dimensions are skipped, the others are mapped to the
  output's root domain with \<^verbatim>\<open>at\<close> and keep their contiguity.
\<close>

fun map_allocation_loop ::
  "Layout \<Rightarrow> (IterDomain \<rightharpoonup> IterDomain) \<Rightarrow> nat list \<Rightarrow> Layout \<Rightarrow> error + Layout"
where
  "map_allocation_loop in_layout in_rfactor_to_out_root [] out_layout = Inr out_layout"
| "map_allocation_loop in_layout in_rfactor_to_out_root (i # rest) out_layout =
     (let in_allocation_id = allocation_domain in_layout ! i in
      if isReduction in_allocation_id
      then map_allocation_loop in_layout in_rfactor_to_out_root rest out_layout
      else (case map_at in_rfactor_to_out_root in_allocation_id of
              Inl e \<Rightarrow> Inl e
            | Inr d \<Rightarrow>
                (case vec_at (contiguity in_layout) i of
                   Inl e \<Rightarrow> Inl e
                 | Inr c \<Rightarrow>
                     map_allocation_loop in_layout in_rfactor_to_out_root rest
                       (push_back out_layout d c))))"

definition handle_LoadStoreOp ::
  "AliasAnalysisResult \<Rightarrow> LoadStoreOp \<Rightarrow> error + AliasAnalysisResult"
where
  "handle_LoadStoreOp analysis permute =
     (case permute_in permute of
        OtherVal _ \<Rightarrow> Inr analysis
      | TensorViewVal inp \<Rightarrow>
          (case preferredLayout analysis (TensorViewVal inp) of
             Inl e \<Rightarrow> Inl e
           | Inr in_layout \<Rightarrow>
               if computePermutation (getMaybeRFactorDomain inp) (allocation_domain in_layout) = None
               then Inr analysis
               else
                 (case map_allocation_loop in_layout (permute_mapProducerToConsumer permute)
                         [0..<length (allocation_domain in_layout)] empty_layout of
                    Inl e \<Rightarrow> Inl e
                  | Inr out_layout \<Rightarrow> add analysis (permute_out permute) inp out_layout)))"

text \<open>The second loop of the broadcast rule: the new dimensions go to the end.\<close>

fun append_broadcast_dims :: "(nat \<Rightarrow> bool) \<Rightarrow> IterDomain list \<Rightarrow> nat list \<Rightarrow> Layout \<Rightarrow> Layout" where
  "append_broadcast_dims is_bcast out_rfactor [] out_layout = out_layout"
| "append_broadcast_dims is_bcast out_rfactor (i # rest) out_layout =
     (if is_bcast i
      then append_broadcast_dims is_bcast out_rfactor rest
             (push_back out_layout (out_rfactor ! i) None)
      else append_broadcast_dims is_bcast out_rfactor rest out_layout)"

definition handle_BroadcastOp ::
  "AliasAnalysisResult \<Rightarrow> BroadcastOp \<Rightarrow> error + AliasAnalysisResult"
where
  "handle_BroadcastOp analysis bcast =
     (case bcast_in bcast of
        OtherVal _ \<Rightarrow> Inr analysis
      | TensorViewVal inp \<Rightarrow>
          (let out = bcast_out bcast in
           case preferredLayout analysis (TensorViewVal inp) of
             Inl e \<Rightarrow> Inl e
           | Inr in_layout \<Rightarrow>
               if computePermutation (getMaybeRFactorDomain inp) (allocation_domain in_layout) = None
               then Inr analysis
               else
                 (case map_allocation_loop in_layout (bcast_mapProducerToConsumer bcast)
                         [0..<length (allocation_domain in_layout)] empty_layout of
                    Inl e \<Rightarrow> Inl e
                  | Inr out_layout \<Rightarrow>
                      (let out_rfactor = getMaybeRFactorDomain out in
                       add analysis out inp
                         (append_broadcast_dims (isBroadcastDim bcast) out_rfactor
                            [0..<length out_rfactor] out_layout)))))"

text \<open>The loop of the squeeze rule: a dimension absent from the map is dropped.\<close>

fun squeeze_loop ::
  "Layout \<Rightarrow> (IterDomain \<rightharpoonup> IterDomain) \<Rightarrow> nat list \<Rightarrow> Layout \<Rightarrow> error + Layout"
where
  "squeeze_loop in_layout in_rfactor_to_out_root [] out_layout = Inr out_layout"
| "squeeze_loop in_layout in_rfactor_to_out_root (i # rest) out_layout =
     (let in_allocation_id = allocation_domain in_layout ! i in
      if in_rfactor_to_out_root in_allocation_id = None
      then squeeze_loop in_layout in_rfactor_to_out_root rest out_layout
      else (case map_at in_rfactor_to_out_root in_allocation_id of
              Inl e \<Rightarrow> Inl e
            | Inr d \<Rightarrow>
                (case vec_at (contiguity in_layout) i of
                   Inl e \<Rightarrow> Inl e
                 | Inr c \<Rightarrow>
                     squeeze_loop in_layout in_rfactor_to_out_root rest
                       (push_back out_layout d c))))"

definition handle_SqueezeOp ::
  "AliasAnalysisResult \<Rightarrow> SqueezeOp \<Rightarrow> error + AliasAnalysisResult"
where
  "handle_SqueezeOp analysis squeeze =
     (case squeeze_in squeeze of
        OtherVal _ \<Rightarrow> Inr analysis
      | TensorViewVal inp \<Rightarrow>
          (case preferredLayout analysis (TensorViewVal inp) of
             Inl e \<Rightarrow> Inl e
           | Inr in_layout \<Rightarrow>
               if computePermutation (getMaybeRFactorDomain inp) (allocation_domain in_layout) = None
               then Inr analysis
               else
                 (case squeeze_loop in_layout (squeeze_mapProducerToConsumer squeeze)
                         [0..<length (allocation_domain in_layout)] empty_layout of
                    Inl e \<Rightarrow> Inl e
                  | Inr out_layout \<Rightarrow> add analysis (squeeze_out squeeze) inp out_layout)))"

subsection \<open>The slice rule\<close>

fun build_out_root_to_rfactor ::
  "IterDomain list \<Rightarrow> IterDomain list \<Rightarrow> nat list \<Rightarrow> (IterDomain \<rightharpoonup> IterDomain)
   \<Rightarrow> error + (IterDomain \<rightharpoonup> IterDomain)"
where
  "build_out_root_to_rfactor out_root out_rfactor [] m = Inr m"
| "build_out_root_to_rfactor out_root out_rfactor (i # rest) m =
     (case vec_at out_root i of
        Inl e \<Rightarrow> Inl e
      | Inr r \<Rightarrow> build_out_root_to_rfactor out_root out_rfactor rest (m(r \<mapsto> out_rfactor ! i)))"

fun slice_allocation_loop ::
  "(IterDomain \<rightharpoonup> IterDomain) \<Rightarrow> (IterDomain \<rightharpoonup> IterDomain) \<Rightarrow> IterDomain list
   \<Rightarrow> IterDomain list \<Rightarrow> error + IterDomain list"
where
  "slice_allocation_loop in_rfactor_to_out_root out_root_to_rfactor [] out_alloc = Inr out_alloc"
| "slice_allocation_loop in_rfactor_to_out_root out_root_to_rfactor (in_allocation_id # rest) out_alloc =
     (if isReduction in_allocation_id
      then slice_allocation_loop in_rfactor_to_out_root out_root_to_rfactor rest out_alloc
      else (case map_at in_rfactor_to_out_root in_allocation_id of
              Inl e \<Rightarrow> Inl e
            | Inr out_root_id \<Rightarrow>
                (case map_at out_root_to_rfactor out_root_id of
                   Inl e \<Rightarrow> Inl e
                 | Inr d \<Rightarrow>
                     slice_allocation_loop in_rfactor_to_out_root out_root_to_rfactor rest
                       (out_alloc @ [d]))))"

text \<open>
  The scan from minor to major. \<open>slice_scan alloc in_c sliced k flag out_c\<close> runs the
  iterations \<open>i = k - 1, \<dots>, 0\<close> with the pending flag \<open>flag\<close> on the contiguity
  vector \<open>out_c\<close>.
\<close>

fun slice_scan ::
  "IterDomain list \<Rightarrow> bool option list \<Rightarrow> (IterDomain \<Rightarrow> bool) \<Rightarrow> nat \<Rightarrow> bool
   \<Rightarrow> bool option list \<Rightarrow> error + bool option list"
where
  "slice_scan alloc in_c sliced 0 next_non_broadcast_is_non_contiguous out_c = Inr out_c"
| "slice_scan alloc in_c sliced (Suc i) next_non_broadcast_is_non_contiguous out_c =
     (case vec_at alloc i of
        Inl e \<Rightarrow> Inl e
      | Inr d \<Rightarrow>
          (case (if isBroadcast d then Inr (None, next_non_broadcast_is_non_contiguous)
                 else if next_non_broadcast_is_non_contiguous then Inr (Some False, False)
                 else (case vec_at in_c i of
                         Inl e \<Rightarrow> Inl e
                       | Inr c \<Rightarrow> Inr (c, False))) of
             Inl e \<Rightarrow> Inl e
           | Inr (c, flag) \<Rightarrow>
               slice_scan alloc in_c sliced i (if sliced d then True else flag) (out_c[i := c])))"

definition handle_SliceOp :: "AliasAnalysisResult \<Rightarrow> SliceOp \<Rightarrow> error + AliasAnalysisResult" where
  "handle_SliceOp analysis slice =
     (let inp = slice_in slice; out = slice_out slice;
          in_rfactor = getMaybeRFactorDomain inp;
          out_root = getRootDomain out;
          out_rfactor = getMaybeRFactorDomain out;
          out_rank = length out_rfactor in
      case build_out_root_to_rfactor out_root out_rfactor [0..<out_rank] Map.empty of
        Inl e \<Rightarrow> Inl e
      | Inr out_root_to_rfactor \<Rightarrow>
          (case preferredLayout analysis (TensorViewVal inp) of
             Inl e \<Rightarrow> Inl e
           | Inr in_layout \<Rightarrow>
               if computePermutation in_rfactor (allocation_domain in_layout) = None
               then Inr analysis
               else
                 (case slice_allocation_loop (slice_mapProducerToConsumer slice)
                         out_root_to_rfactor (allocation_domain in_layout) [] of
                    Inl e \<Rightarrow> Inl e
                  | Inr out_alloc \<Rightarrow>
                      (case slice_scan out_alloc (contiguity in_layout) (slice_hasResize slice)
                              out_rank False (replicate out_rank None) of
                         Inl e \<Rightarrow> Inl e
                       | Inr out_contiguity \<Rightarrow>
                           add analysis out inp
                             \<lparr>allocation_domain = out_alloc, contiguity = out_contiguity\<rparr>))))"

subsection \<open>The driver\<close>

definition dispatch :: "AliasAnalysisResult \<Rightarrow> Expr \<Rightarrow> error + AliasAnalysisResult" where
  "dispatch analysis expr =
     (case expr of
        IsViewOp view \<Rightarrow> handle_ViewOp analysis view
      | IsLoadStoreOp permute \<Rightarrow> handle_LoadStoreOp analysis permute
      | IsSliceOp slice \<Rightarrow> handle_SliceOp analysis slice
      | IsBroadcastOp bcast \<Rightarrow> handle_BroadcastOp analysis bcast
      | IsSqueezeOp squeeze \<Rightarrow> handle_SqueezeOp analysis squeeze
      | IsOtherOp \<Rightarrow> Inr analysis)"

record Fusion =
  exprs :: "Expr list"
  outputs :: "Val list"

fun dispatch_all :: "Expr list \<Rightarrow> AliasAnalysisResult \<Rightarrow> error + AliasAnalysisResult" where
  "dispatch_all [] analysis = Inr analysis"
| "dispatch_all (expr # rest) analysis =
     (case dispatch analysis expr of
        Inl e \<Rightarrow> Inl e
      | Inr analysis' \<Rightarrow> dispatch_all rest analysis')"

definition findAliases :: "Fusion \<Rightarrow> bool \<Rightarrow> (error + AliasAnalysisResult) option" where
  "findAliases fusion can_override_empty_allocation_domain =
     (case dispatch_all (exprs fusion) empty_result of
        Inl e \<Rightarrow> Some (Inl e)
      | Inr analysis \<Rightarrow> finalize analysis (outputs fusion) can_override_empty_allocation_domain)"

subsection \<open>Device mesh\<close>

text \<open>
  \<^verbatim>\<open>DeviceIdxType\<close> is declared in \<^verbatim>\<open>multidevice/multidevice.h\<close>; it is an integer
  index and no arithmetic is done on it.
\<close>

type_synonym DeviceIdxType = int

record DeviceMesh =
  vector :: "DeviceIdxType list"

text \<open>
  \<^verbatim>\<open>std::unique\<close> keeps the first element of every run of equal consecutive elements
  and returns the end of the kept range.
\<close>

fun std_unique :: "'a list \<Rightarrow> 'a list" where
  "std_unique [] = []"
| "std_unique [x] = [x]"
| "std_unique (x # y # xs) = (if x = y then std_unique (y # xs) else x # std_unique (y # xs))"

text \<open>
  \<^verbatim>\<open>std::unique\<close> works in place: the kept elements move to the front, and the
  positions from the returned end on are not written. The elements are integers, so a
  moved-from position keeps its value. The result is the vector afterwards and the index
  of the returned end.
\<close>

definition std_unique_inplace :: "'a list \<Rightarrow> 'a list \<times> nat" where
  "std_unique_inplace xs =
     (std_unique xs @ drop (length (std_unique xs)) xs, length (std_unique xs))"

text \<open>
  \<^verbatim>\<open>setDevices\<close> first assigns \<^verbatim>\<open>vector_\<close> and runs \<^verbatim>\<open>std::unique\<close> on it, then
  asserts that the returned end is the end of the vector. The result is the error, if
  any, and the mesh as it is left.
\<close>

definition setDevices :: "DeviceMesh \<Rightarrow> DeviceIdxType list \<Rightarrow> error option \<times> DeviceMesh" where
  "setDevices mesh devices =
     (case std_unique_inplace devices of
        (vector', new_end) \<Rightarrow>
          (if new_end = length vector' then None else Some NvfError,
           mesh\<lparr>vector := vector'\<rparr>))"

text \<open>
  The constructor calls \<^verbatim>\<open>setDevices\<close> on the new object, whose vector is empty; when
  the assertion fails the exception leaves the constructor and there is no object.
\<close>

definition DeviceMesh_new :: "DeviceIdxType list \<Rightarrow> error + DeviceMesh" where
  "DeviceMesh_new devices =
     (case setDevices \<lparr>vector = []\<rparr> devices of
        (None, mesh) \<Rightarrow> Inr mesh
      | (Some e, mesh) \<Rightarrow> Inl e)"

text \<open>
  The assignment operator calls \<^verbatim>\<open>setDevices\<close> on an existing object; when the
  assertion fails the object stays as \<^verbatim>\<open>setDevices\<close> left it.
\<close>

definition DeviceMesh_assign :: "DeviceMesh \<Rightarrow> DeviceIdxType list \<Rightarrow> error option \<times> DeviceMesh" where
  "DeviceMesh_assign mesh devices = setDevices mesh devices"

definition has :: "DeviceMesh \<Rightarrow> DeviceIdxType \<Rightarrow> bool" where
  "has mesh device = (device \<in> set (vector mesh))"

subsection \<open>The input of a rule\<close>

text \<open>The tensor whose preferred layout the rule of an operation looks at, if any.\<close>

definition rule_input :: "Expr \<Rightarrow> TensorView option" where
  "rule_input expr =
     (case expr of
        IsViewOp view \<Rightarrow> Some (view_in view)
      | IsLoadStoreOp permute \<Rightarrow>
          (case permute_in permute of TensorViewVal tv \<Rightarrow> Some tv | OtherVal _ \<Rightarrow> None)
      | IsSliceOp slice \<Rightarrow> Some (slice_in slice)
      | IsBroadcastOp bcast \<Rightarrow>
          (case bcast_in bcast of TensorViewVal tv \<Rightarrow> Some tv | OtherVal _ \<Rightarrow> None)
      | IsSqueezeOp squeeze \<Rightarrow>
          (case squeeze_in squeeze of TensorViewVal tv \<Rightarrow> Some tv | OtherVal _ \<Rightarrow> None)
      | IsOtherOp \<Rightarrow> None)"

subsection \<open>Sequences of registrations\<close>

text \<open>A sequence of calls of \<^verbatim>\<open>add\<close>, stopping at the first failure.\<close>

fun add_all ::
  "(TensorView \<times> TensorView \<times> Layout) list \<Rightarrow> AliasAnalysisResult \<Rightarrow> error + AliasAnalysisResult"
where
  "add_all [] a = Inr a"
| "add_all ((alias, source, layout) # rest) a =
     (case add a alias source layout of
        Inl e \<Rightarrow> Inl e
      | Inr a' \<Rightarrow> add_all rest a')"

subsection \<open>What finalize decides for one output\<close>

text \<open>
  The entry that the body of the loop of \<^verbatim>\<open>finalize\<close> writes for the output \<open>out\<close>:
  the root of the chain walk when there is one and \<^verbatim>\<open>okToRelayout\<close> holds of the
  preferred layout, no entry otherwise.
\<close>

definition finalize_entry :: "AliasAnalysisResult \<Rightarrow> bool \<Rightarrow> TensorView \<Rightarrow> TensorView option" where
  "finalize_entry a flag out =
     (case findNearestAliasedIo a out of
        Some (Some root) \<Rightarrow>
          (case preferredLayout a (TensorViewVal out) of
             Inr preferred_layout \<Rightarrow>
               (if okToRelayout out preferred_layout flag = Inr True then Some root else None)
           | Inl e \<Rightarrow> None)
      | _ \<Rightarrow> None)"

text \<open>
  The target layout of an output in the words of the specification: the allocation
  domain as it is when the flag is false; the allocation domain or, if that is empty, the
  default domain when the flag is true.
\<close>

definition claimed_target_layout :: "TensorView \<Rightarrow> bool \<Rightarrow> Layout" where
  "claimed_target_layout out allow_override_empty_allocation =
     (if \<not> allow_override_empty_allocation
      then \<lparr>allocation_domain = getAllocationDomain out, contiguity = getContiguity out\<rparr>
      else \<lparr>allocation_domain =
              (if getAllocationDomain out = [] then getMaybeRFactorDomain out
               else getAllocationDomain out),
            contiguity = getContiguity out\<rparr>)"

subsection \<open>The pending flag of the slice scan\<close>

text \<open>
  Whether a dimension has to be marked non-contiguous depends on the dimensions on its
  minor side, nearest first: the flag is pending after them when the nearest one is
  sliced, or is a broadcast dimension behind which the flag is pending. \<open>init\<close> is the
  flag before the minor-most of them.
\<close>

fun pending_flag :: "bool \<Rightarrow> (IterDomain \<Rightarrow> bool) \<Rightarrow> IterDomain list \<Rightarrow> bool" where
  "pending_flag init sliced [] = init"
| "pending_flag init sliced (d # ds) = (sliced d \<or> (isBroadcast d \<and> pending_flag init sliced ds))"

text \<open>
  The same in the words of the specification, where only a sliced dimension that is not
  a broadcast raises the flag and a broadcast dimension passes it through unchanged.
\<close>

fun claimed_pending_flag :: "(IterDomain \<Rightarrow> bool) \<Rightarrow> IterDomain list \<Rightarrow> bool" where
  "claimed_pending_flag sliced [] = False"
| "claimed_pending_flag sliced (d # ds) =
     (if isBroadcast d then claimed_pending_flag sliced ds else sliced d)"

definition claimed_slice_contiguity ::
  "IterDomain list \<Rightarrow> bool option list \<Rightarrow> (IterDomain \<Rightarrow> bool) \<Rightarrow> bool option list"
where
  "claimed_slice_contiguity alloc in_c sliced =
     map (\<lambda>i. if isBroadcast (alloc ! i) then None
               else if claimed_pending_flag sliced (drop (Suc i) alloc) then Some False
               else in_c ! i)
         [0..<length alloc]"

subsection \<open>Well-formed layouts\<close>

definition layout_ok :: "Layout \<Rightarrow> bool" where
  "layout_ok layout = (length (allocation_domain layout) = length (contiguity layout))"

definition result_ok :: "AliasAnalysisResult \<Rightarrow> bool" where
  "result_ok a = (\<forall>tv sl. alias_to_source a tv = Some sl \<longrightarrow> layout_ok (snd sl))"

text \<open>
  What the rules take for granted of the IR: the contiguity of a dimension with an
  expanded extent is nullopt, a tensor has one contiguity entry for each dimension of its
  allocation domain (or of the default one), and the output of a slice has one dimension
  for each dimension of the input that is not a reduction.
\<close>

definition contiguity_ok :: "IterDomain \<Rightarrow> bool option \<Rightarrow> bool" where
  "contiguity_ok d c = (hasExpandedExtent d \<longrightarrow> c = None)"

definition tensor_ok :: "TensorView \<Rightarrow> bool" where
  "tensor_ok tv = (length (getContiguity tv) = length (getMaybeAllocationDomain tv))"

definition slice_ok :: "SliceOp \<Rightarrow> bool" where
  "slice_ok slice =
     (length (getMaybeRFactorDomain (slice_out slice)) =
      length (filter (\<lambda>d. \<not> isReduction d) (getMaybeRFactorDomain (slice_in slice))))"

section \<open>Example programs\<close>

definition iter_dim :: "nat \<Rightarrow> IterDomain" where
  "iter_dim n = \<lparr>id_name = n, isReduction = False, isBroadcast = False, hasExpandedExtent = False\<rparr>"

definition bcast_dim :: "nat \<Rightarrow> IterDomain" where
  "bcast_dim n = \<lparr>id_name = n, isReduction = False, isBroadcast = True, hasExpandedExtent = False\<rparr>"

definition expanded_dim :: "nat \<Rightarrow> IterDomain" where
  "expanded_dim n = \<lparr>id_name = n, isReduction = False, isBroadcast = True, hasExpandedExtent = True\<rparr>"

definition reduction_dim :: "nat \<Rightarrow> IterDomain" where
  "reduction_dim n = \<lparr>id_name = n, isReduction = True, isBroadcast = False, hasExpandedExtent = False\<rparr>"

text \<open>A tensor without rfactor and allocation domains.\<close>

definition plain_tensor :: "nat \<Rightarrow> IterDomain list \<Rightarrow> bool option list \<Rightarrow> bool \<Rightarrow> bool \<Rightarrow> TensorView" where
  "plain_tensor n dims contig is_input is_output =
     \<lparr>tv_name = n, getRootDomain = dims, getRFactorDomain = [], getAllocationDomain = [],
      getContiguity = contig, isFusionInput = is_input, isFusionOutput = is_output\<rparr>"

text \<open>A chain of two aliases that ends in an intermediate tensor without source.\<close>

definition chain_C :: TensorView where "chain_C = plain_tensor 0 [] [] False False"
definition chain_B :: TensorView where "chain_B = plain_tensor 1 [] [] False False"
definition chain_A :: TensorView where "chain_A = plain_tensor 2 [] [] False True"

definition chain_result :: AliasAnalysisResult where
  "chain_result =
     \<lparr>alias_to_source = [chain_A \<mapsto> (chain_B, empty_layout), chain_B \<mapsto> (chain_C, empty_layout)],
      out_to_root = Map.empty\<rparr>"

text \<open>The same chain ending in a graph input.\<close>

definition chain_in :: TensorView where "chain_in = plain_tensor 0 [] [] True False"

definition chain_to_input :: AliasAnalysisResult where
  "chain_to_input =
     \<lparr>alias_to_source = [chain_A \<mapsto> (chain_B, empty_layout), chain_B \<mapsto> (chain_in, empty_layout)],
      out_to_root = Map.empty\<rparr>"

text \<open>
  An output without allocation domain whose registered layout is the transposition of
  its default one.
\<close>

definition gate_in :: TensorView where
  "gate_in = plain_tensor 0 [iter_dim 0, iter_dim 1] [Some True, Some True] True False"

definition gate_out :: TensorView where
  "gate_out = plain_tensor 1 [iter_dim 2, iter_dim 3] [Some True, Some True] False True"

definition gate_layout :: Layout where
  "gate_layout =
     \<lparr>allocation_domain = [iter_dim 3, iter_dim 2], contiguity = [Some True, Some True]\<rparr>"

definition gate_result :: AliasAnalysisResult where
  "gate_result =
     \<lparr>alias_to_source = [gate_out \<mapsto> (gate_in, gate_layout)], out_to_root = Map.empty\<rparr>"

definition gate_final :: AliasAnalysisResult where
  "gate_final =
     \<lparr>alias_to_source = [gate_out \<mapsto> (gate_in, gate_layout)],
      out_to_root = [gate_out \<mapsto> gate_in]\<rparr>"

text \<open>
  A contiguous 3-D input with allocation order d0, d1, d2 of which only the minor-most
  dimension is sliced: the output's root domain is d3, d4, d5, and d8 is the resized d5.
\<close>

definition slice3_in :: TensorView where
  "slice3_in = plain_tensor 0 [iter_dim 0, iter_dim 1, iter_dim 2]
                 [Some True, Some True, Some True] True False"

definition slice3_out :: TensorView where
  "slice3_out =
     \<lparr>tv_name = 1, getRootDomain = [iter_dim 3, iter_dim 4, iter_dim 5],
      getRFactorDomain = [iter_dim 3, iter_dim 4, iter_dim 8], getAllocationDomain = [],
      getContiguity = [Some True, Some True, Some True],
      isFusionInput = False, isFusionOutput = True\<rparr>"

definition slice3 :: SliceOp where
  "slice3 =
     \<lparr>slice_in = slice3_in, slice_out = slice3_out,
      slice_mapProducerToConsumer =
        [iter_dim 0 \<mapsto> iter_dim 3, iter_dim 1 \<mapsto> iter_dim 4, iter_dim 2 \<mapsto> iter_dim 5],
      slice_hasResize = (\<lambda>d. d = iter_dim 8)\<rparr>"

definition slice3_layout :: Layout where
  "slice3_layout =
     \<lparr>allocation_domain = [iter_dim 3, iter_dim 4, iter_dim 8],
      contiguity = [Some True, Some False, Some True]\<rparr>"

definition slice3_result :: AliasAnalysisResult where
  "slice3_result =
     \<lparr>alias_to_source = [slice3_out \<mapsto> (slice3_in, slice3_layout)], out_to_root = Map.empty\<rparr>"

text \<open>
  A contiguous 2-D input whose minor dimension is sliced to extent one: the resized
  dimension of the output is the broadcast dimension 4.
\<close>

definition slice1_in :: TensorView where
  "slice1_in = plain_tensor 0 [iter_dim 0, iter_dim 1] [Some True, Some True] True False"

definition slice1_out :: TensorView where
  "slice1_out =
     \<lparr>tv_name = 1, getRootDomain = [iter_dim 2, iter_dim 3],
      getRFactorDomain = [iter_dim 2, bcast_dim 4], getAllocationDomain = [],
      getContiguity = [Some True, None],
      isFusionInput = False, isFusionOutput = True\<rparr>"

definition slice1 :: SliceOp where
  "slice1 =
     \<lparr>slice_in = slice1_in, slice_out = slice1_out,
      slice_mapProducerToConsumer = [iter_dim 0 \<mapsto> iter_dim 2, iter_dim 1 \<mapsto> iter_dim 3],
      slice_hasResize = (\<lambda>d. d = bcast_dim 4)\<rparr>"

definition slice1_layout :: Layout where
  "slice1_layout =
     \<lparr>allocation_domain = [iter_dim 2, bcast_dim 4], contiguity = [Some False, None]\<rparr>"

definition slice1_result :: AliasAnalysisResult where
  "slice1_result =
     \<lparr>alias_to_source = [slice1_out \<mapsto> (slice1_in, slice1_layout)], out_to_root = Map.empty\<rparr>"

text \<open>
  A view that merges d0 and d1 of an input whose allocation order is d1, d0, d2: the two
  operands are not adjacent in that order.
\<close>

definition view_far_in :: TensorView where
  "view_far_in =
     \<lparr>tv_name = 0, getRootDomain = [iter_dim 0, iter_dim 1, iter_dim 2],
      getRFactorDomain = [], getAllocationDomain = [iter_dim 1, iter_dim 0, iter_dim 2],
      getContiguity = [Some True, Some True, Some True],
      isFusionInput = True, isFusionOutput = False\<rparr>"

definition view_far_out :: TensorView where
  "view_far_out =
     \<lparr>tv_name = 1, getRootDomain = [iter_dim 3, iter_dim 4, iter_dim 5],
      getRFactorDomain = [iter_dim 6, iter_dim 5], getAllocationDomain = [],
      getContiguity = [Some True, Some True],
      isFusionInput = False, isFusionOutput = True\<rparr>"

definition view_far :: ViewOp where
  "view_far =
     \<lparr>view_in = view_far_in, view_out = view_far_out,
      view_mapProducerToConsumer =
        [iter_dim 0 \<mapsto> iter_dim 3, iter_dim 1 \<mapsto> iter_dim 4, iter_dim 2 \<mapsto> iter_dim 5],
      view_mapConsumerToProducer =
        [iter_dim 3 \<mapsto> iter_dim 0, iter_dim 4 \<mapsto> iter_dim 1, iter_dim 5 \<mapsto> iter_dim 2],
      view_exprsBetween = [Merge (iter_dim 3) (iter_dim 4) (iter_dim 6)]\<rparr>"

text \<open>A view that merges the two dimensions of an input whose outer one is not contiguous.\<close>

definition view_strided_in :: TensorView where
  "view_strided_in = plain_tensor 0 [iter_dim 0, iter_dim 1] [Some False, Some True] True False"

definition view_strided_out :: TensorView where
  "view_strided_out =
     \<lparr>tv_name = 1, getRootDomain = [iter_dim 3, iter_dim 4],
      getRFactorDomain = [iter_dim 6], getAllocationDomain = [],
      getContiguity = [Some True],
      isFusionInput = False, isFusionOutput = True\<rparr>"

definition view_strided :: ViewOp where
  "view_strided =
     \<lparr>view_in = view_strided_in, view_out = view_strided_out,
      view_mapProducerToConsumer = [iter_dim 0 \<mapsto> iter_dim 3, iter_dim 1 \<mapsto> iter_dim 4],
      view_mapConsumerToProducer = [iter_dim 3 \<mapsto> iter_dim 0, iter_dim 4 \<mapsto> iter_dim 1],
      view_exprsBetween = [Merge (iter_dim 3) (iter_dim 4) (iter_dim 6)]\<rparr>"

text \<open>
  A copy of an input whose allocation domain, a split of d1, is not a permutation of its
  logical domain.
\<close>

definition copy_split_in :: TensorView where
  "copy_split_in =
     \<lparr>tv_name = 0, getRootDomain = [iter_dim 0, iter_dim 1],
      getRFactorDomain = [], getAllocationDomain = [iter_dim 0, iter_dim 7, iter_dim 8],
      getContiguity = [Some True, Some True, Some True],
      isFusionInput = True, isFusionOutput = False\<rparr>"

definition copy_split :: LoadStoreOp where
  "copy_split =
     \<lparr>permute_in = TensorViewVal copy_split_in,
      permute_out = plain_tensor 1 [iter_dim 3, iter_dim 4] [Some True, Some True] False True,
      permute_mapProducerToConsumer = [iter_dim 0 \<mapsto> iter_dim 3, iter_dim 1 \<mapsto> iter_dim 4]\<rparr>"

text \<open>
  A program of one slice whose input has a reduction dimension first in its allocation
  domain; d8 is the resized d4.
\<close>

definition slice_red_in :: TensorView where
  "slice_red_in = plain_tensor 0 [reduction_dim 0, iter_dim 1, iter_dim 2]
                    [None, Some True, Some False] True False"

definition slice_red_out :: TensorView where
  "slice_red_out =
     \<lparr>tv_name = 1, getRootDomain = [iter_dim 3, iter_dim 4],
      getRFactorDomain = [iter_dim 3, iter_dim 8], getAllocationDomain = [],
      getContiguity = [Some True, Some True],
      isFusionInput = False, isFusionOutput = True\<rparr>"

definition slice_red :: SliceOp where
  "slice_red =
     \<lparr>slice_in = slice_red_in, slice_out = slice_red_out,
      slice_mapProducerToConsumer = [iter_dim 1 \<mapsto> iter_dim 3, iter_dim 2 \<mapsto> iter_dim 4],
      slice_hasResize = (\<lambda>d. d = iter_dim 8)\<rparr>"

definition slice_red_layout :: Layout where
  "slice_red_layout =
     \<lparr>allocation_domain = [iter_dim 3, iter_dim 8], contiguity = [Some False, Some True]\<rparr>"

definition slice_red_result :: AliasAnalysisResult where
  "slice_red_result =
     \<lparr>alias_to_source = [slice_red_out \<mapsto> (slice_red_in, slice_red_layout)],
      out_to_root = Map.empty\<rparr>"

definition slice_red_fusion :: Fusion where
  "slice_red_fusion = \<lparr>exprs = [IsSliceOp slice_red], outputs = [TensorViewVal slice_red_out]\<rparr>"

text \<open>
  A slice of the same input that keeps every dimension whole: the output's rfactor domain
  is its root domain.
\<close>

definition slice_keep_out :: TensorView where
  "slice_keep_out = plain_tensor 1 [iter_dim 3, iter_dim 4] [Some True, Some True] False True"

definition slice_keep :: SliceOp where
  "slice_keep =
     \<lparr>slice_in = slice_red_in, slice_out = slice_keep_out,
      slice_mapProducerToConsumer = [iter_dim 1 \<mapsto> iter_dim 3, iter_dim 2 \<mapsto> iter_dim 4],
      slice_hasResize = (\<lambda>d. False)\<rparr>"

section \<open>Theorems\<close>

lemma mergeContiguity_defined:
  "\<exists>r. mergeContiguity outer_id oc inner_id ic = Inr r"
  by (cases oc; cases ic) (auto simp: mergeContiguity_def)

text \<open>
  C1. \<^verbatim>\<open>mergeContiguity\<close> follows the documented case table, read from top to
  bottom. A side with unknown contiguity whose dimension has no expanded extent gives
  (true, the other side's contiguity). Two expanded dimensions give (true, nullopt).
  Exactly one expanded dimension gives (false, nullopt), when no side is of the first
  kind. Without expanded dimensions and with both contiguities known, a contiguous outer
  gives (true, inner contiguity) and a non-contiguous outer gives (false, nullopt). The
  function always returns: the outer contiguity is only dereferenced when it has a value.
\<close>

theorem mergeContiguity_case_table:
  "(oc = None \<and> \<not> hasExpandedExtent outer_id \<longrightarrow>
      mergeContiguity outer_id oc inner_id ic = Inr (True, ic))
   \<and> (ic = None \<and> \<not> hasExpandedExtent inner_id \<longrightarrow>
      mergeContiguity outer_id oc inner_id ic = Inr (True, oc))
   \<and> (hasExpandedExtent outer_id \<and> hasExpandedExtent inner_id \<longrightarrow>
      mergeContiguity outer_id oc inner_id ic = Inr (True, None))
   \<and> (hasExpandedExtent outer_id \<noteq> hasExpandedExtent inner_id
       \<and> \<not> (oc = None \<and> \<not> hasExpandedExtent outer_id)
       \<and> \<not> (ic = None \<and> \<not> hasExpandedExtent inner_id) \<longrightarrow>
      mergeContiguity outer_id oc inner_id ic = Inr (False, None))
   \<and> (\<not> hasExpandedExtent outer_id \<and> \<not> hasExpandedExtent inner_id
       \<and> oc = Some True \<and> ic \<noteq> None \<longrightarrow>
      mergeContiguity outer_id oc inner_id ic = Inr (True, ic))
   \<and> (\<not> hasExpandedExtent outer_id \<and> \<not> hasExpandedExtent inner_id
       \<and> oc = Some False \<and> ic \<noteq> None \<longrightarrow>
      mergeContiguity outer_id oc inner_id ic = Inr (False, None))
   \<and> (\<exists>r. mergeContiguity outer_id oc inner_id ic = Inr r)"
  by (cases oc; cases ic) (auto simp: mergeContiguity_def)

theorem mergeContiguity_case_table_witness:
  "mergeContiguity (bcast_dim 0) None (iter_dim 1) (Some False) = Inr (True, Some False)
   \<and> mergeContiguity (iter_dim 0) (Some False) (bcast_dim 1) None = Inr (True, Some False)
   \<and> mergeContiguity (expanded_dim 0) None (expanded_dim 1) None = Inr (True, None)
   \<and> mergeContiguity (expanded_dim 0) None (iter_dim 1) (Some True) = Inr (False, None)
   \<and> mergeContiguity (iter_dim 0) (Some True) (iter_dim 1) (Some False) = Inr (True, Some False)
   \<and> mergeContiguity (iter_dim 0) (Some False) (iter_dim 1) (Some True) = Inr (False, None)"
  using mergeContiguity_case_table [of None "bcast_dim 0" "iter_dim 1" "Some False"]
        mergeContiguity_case_table [of "Some False" "iter_dim 0" "bcast_dim 1" None]
        mergeContiguity_case_table [of None "expanded_dim 0" "expanded_dim 1" None]
        mergeContiguity_case_table [of None "expanded_dim 0" "iter_dim 1" "Some True"]
        mergeContiguity_case_table [of "Some True" "iter_dim 0" "iter_dim 1" "Some False"]
        mergeContiguity_case_table [of "Some False" "iter_dim 0" "iter_dim 1" "Some True"]
  by (simp add: iter_dim_def bcast_dim_def expanded_dim_def)

lemma add_all_result:
  "add_all xs a = Inr a' \<Longrightarrow>
     distinct (map fst xs) \<and> fst ` set xs \<inter> dom (alias_to_source a) = {}
     \<and> alias_to_source a' = alias_to_source a ++ map_of xs
     \<and> out_to_root a' = out_to_root a"
proof (induction xs arbitrary: a)
  case Nil
  then show ?case by simp
next
  case (Cons x xs)
  obtain al src lay where x: "x = (al, src, lay)"
    by (cases x) auto
  from Cons.prems x obtain a1 where
    a1: "add a al src lay = Inr a1" and rest: "add_all xs a1 = Inr a'"
    by (auto split: sum.splits)
  from a1 have fresh: "alias_to_source a al = None"
    and a1_eq: "a1 = a\<lparr>alias_to_source := (alias_to_source a)(al \<mapsto> (src, lay))\<rparr>"
    by (auto simp: add_def split: option.splits)
  from Cons.IH [OF rest] have
    d: "distinct (map fst xs)" and
    disj: "fst ` set xs \<inter> dom (alias_to_source a1) = {}" and
    m: "alias_to_source a' = alias_to_source a1 ++ map_of xs" and
    o: "out_to_root a' = out_to_root a1"
    by auto
  from disj a1_eq have notin: "al \<notin> fst ` set xs"
    by auto
  from disj a1_eq have disj': "fst ` set xs \<inter> dom (alias_to_source a) = {}"
    by auto
  have nd: "al \<notin> dom (map_of xs)"
    using notin by (simp add: dom_map_of_conv_image_fst)
  have "alias_to_source a' = (alias_to_source a ++ map_of xs)(al \<mapsto> (src, lay))"
    using m a1_eq map_add_upd_left [OF nd] by simp
  then have m': "alias_to_source a' = alias_to_source a ++ map_of (x # xs)"
    using x by simp
  have d': "distinct (map fst (x # xs))"
    using d notin x by simp
  have disj'': "fst ` set (x # xs) \<inter> dom (alias_to_source a) = {}"
    using disj' fresh x by (auto simp: dom_def)
  have o': "out_to_root a' = out_to_root a"
    using o a1_eq by simp
  from d' disj'' m' o' show ?case
    by blast
qed

text \<open>
  C3, as stated: \<^verbatim>\<open>add\<close> fails if and only if the alias already has a different
  registered source. It also fails when the alias is registered with the same source.
\<close>

theorem add_same_source_counterexample:
  "add \<lparr>alias_to_source = [plain_tensor 1 [] [] False True \<mapsto> (plain_tensor 0 [] [] True False, empty_layout)],
        out_to_root = Map.empty\<rparr>
     (plain_tensor 1 [] [] False True) (plain_tensor 0 [] [] True False) empty_layout
   = Inl NvfError"
  by (simp add: add_def)

text \<open>
  C3, amended: \<^verbatim>\<open>add\<close> fails if and only if the alias already has a registered
  source, the same or another; otherwise it inserts the pair of source and layout. After
  a sequence of successful calls from the empty result the aliases are pairwise distinct
  and every alias maps to the one source and layout it was registered with.
\<close>

theorem add_single_source:
  "(add a alias source layout = Inl NvfError \<longleftrightarrow> alias \<in> dom (alias_to_source a))
   \<and> (alias \<notin> dom (alias_to_source a) \<longrightarrow>
        add a alias source layout =
          Inr (a\<lparr>alias_to_source := (alias_to_source a)(alias \<mapsto> (source, layout))\<rparr>))
   \<and> (add_all xs empty_result = Inr a' \<longrightarrow>
        distinct (map fst xs)
        \<and> dom (alias_to_source a') = fst ` set xs
        \<and> (\<forall>x \<in> set xs. alias_to_source a' (fst x) = Some (snd x)))"
proof (intro conjI impI)
  show "add a alias source layout = Inl NvfError \<longleftrightarrow> alias \<in> dom (alias_to_source a)"
    by (auto simp: add_def split: option.splits)
  show "add a alias source layout =
          Inr (a\<lparr>alias_to_source := (alias_to_source a)(alias \<mapsto> (source, layout))\<rparr>)"
    if "alias \<notin> dom (alias_to_source a)"
    using that by (auto simp: add_def split: option.splits)
  assume ok: "add_all xs empty_result = Inr a'"
  from add_all_result [OF ok] have d: "distinct (map fst xs)"
    and m: "alias_to_source a' = map_of xs"
    by (auto simp: empty_result_def)
  show "distinct (map fst xs)" by (rule d)
  show "dom (alias_to_source a') = fst ` set xs"
    using m by (simp add: dom_map_of_conv_image_fst)
  show "\<forall>x \<in> set xs. alias_to_source a' (fst x) = Some (snd x)"
    using m d by auto
qed

theorem add_single_source_witness:
  "plain_tensor 1 [] [] False True \<notin> dom (alias_to_source empty_result)
   \<and> add_all [(plain_tensor 1 [] [] False True, plain_tensor 0 [] [] True False, empty_layout)]
         empty_result
       = Inr \<lparr>alias_to_source =
                [plain_tensor 1 [] [] False True \<mapsto> (plain_tensor 0 [] [] True False, empty_layout)],
              out_to_root = Map.empty\<rparr>
   \<and> add empty_result (plain_tensor 1 [] [] False True) (plain_tensor 0 [] [] True False)
         empty_layout \<noteq> Inl NvfError
   \<and> dom [plain_tensor 1 [] [] False True \<mapsto> (plain_tensor 0 [] [] True False, empty_layout)]
       = {plain_tensor 1 [] [] False True}"
  using add_single_source
          [of empty_result "plain_tensor 1 [] [] False True" "plain_tensor 0 [] [] True False"
              empty_layout
              "[(plain_tensor 1 [] [] False True, plain_tensor 0 [] [] True False, empty_layout)]"
              "\<lparr>alias_to_source =
                  [plain_tensor 1 [] [] False True \<mapsto> (plain_tensor 0 [] [] True False, empty_layout)],
                out_to_root = Map.empty\<rparr>"]
  by (simp add: add_def empty_result_def)

lemma std_unique_distinct: "distinct xs \<Longrightarrow> std_unique xs = xs"
  by (induction xs rule: std_unique.induct) auto

lemma setDevices_distinct:
  "distinct devices \<Longrightarrow> setDevices mesh devices = (None, mesh\<lparr>vector := devices\<rparr>)"
  by (simp add: setDevices_def std_unique_inplace_def std_unique_distinct)

lemma DeviceMesh_new_distinct:
  "distinct devices \<Longrightarrow> DeviceMesh_new devices = Inr \<lparr>vector = devices\<rparr>"
  by (simp add: DeviceMesh_new_def setDevices_distinct)

lemma DeviceMesh_assign_failure_changes_mesh:
  "DeviceMesh_assign \<lparr>vector = [7]\<rparr> [1, 2, 3, 3] = (Some NvfError, \<lparr>vector = [1, 2, 3, 3]\<rparr>)
   \<and> DeviceMesh_assign \<lparr>vector = [7]\<rparr> [1, 1, 2, 2] = (Some NvfError, \<lparr>vector = [1, 2, 2, 2]\<rparr>)"
  by (simp add: DeviceMesh_assign_def setDevices_def std_unique_inplace_def)

text \<open>
  C9. A list without duplicates is accepted and kept in its order
  (\<open>DeviceMesh_new_distinct\<close>), but not every list with a duplicate is rejected: the
  mesh built from, or assigned, the devices 0, 1, 0 is accepted, although device 0 occurs
  twice, because \<^verbatim>\<open>std::unique\<close> only compares neighbours.
\<close>

theorem DeviceMesh_accepts_duplicates:
  "DeviceMesh_new [0, 1, 0] = Inr \<lparr>vector = [0, 1, 0]\<rparr>
   \<and> DeviceMesh_assign \<lparr>vector = []\<rparr> [0, 1, 0] = (None, \<lparr>vector = [0, 1, 0]\<rparr>)
   \<and> \<not> distinct [0, 1, 0 :: int]"
  by (simp add: DeviceMesh_new_def DeviceMesh_assign_def setDevices_def std_unique_inplace_def)

subsection \<open>The chain walk and finalize\<close>

lemma walk_result_is_io_aux:
  assumes "findNearestAliasedIo_loop m t = Some res"
  shows "\<forall>r. res = Some r \<longrightarrow> isFusionInput r \<or> isFusionOutput r"
proof (rule findNearestAliasedIo_loop.raw_induct
         [where P = "\<lambda>m t res. \<forall>r. res = Some r \<longrightarrow> isFusionInput r \<or> isFusionOutput r",
          OF _ assms])
  fix f :: "(TensorView \<rightharpoonup> (TensorView \<times> Layout)) \<Rightarrow> TensorView \<Rightarrow> TensorView option option"
  fix m' root y
  assume IH: "\<And>m'' t' y'. f m'' t' = Some y' \<Longrightarrow>
                \<forall>r. y' = Some r \<longrightarrow> isFusionInput r \<or> isFusionOutput r"
  assume step: "(case m' root of None \<Rightarrow> Some None
          | Some sl \<Rightarrow> if \<not> isFusionInput (fst sl) \<and> \<not> isFusionOutput (fst sl)
                       then f m' (fst sl) else Some (Some (fst sl))) = Some y"
  show "\<forall>r. y = Some r \<longrightarrow> isFusionInput r \<or> isFusionOutput r"
  proof (cases "m' root")
    case None
    with step show ?thesis by auto
  next
    case (Some sl)
    show ?thesis
    proof (cases "\<not> isFusionInput (fst sl) \<and> \<not> isFusionOutput (fst sl)")
      case True
      with step Some have "f m' (fst sl) = Some y" by simp
      from IH [OF this] show ?thesis .
    next
      case False
      with step Some have "y = Some (fst sl)" by auto
      with False show ?thesis by auto
    qed
  qed
qed

lemma walk_no_entry: "m t = None \<Longrightarrow> findNearestAliasedIo_loop m t = Some None"
  by (subst findNearestAliasedIo_loop.simps) simp

lemma walk_step_io:
  "m t = Some (s, l) \<Longrightarrow> isFusionInput s \<or> isFusionOutput s \<Longrightarrow>
   findNearestAliasedIo_loop m t = Some (Some s)"
  by (subst findNearestAliasedIo_loop.simps) auto

lemma walk_step_inner:
  "m t = Some (s, l) \<Longrightarrow> \<not> isFusionInput s \<Longrightarrow> \<not> isFusionOutput s \<Longrightarrow>
   findNearestAliasedIo_loop m t = findNearestAliasedIo_loop m s"
  by (subst findNearestAliasedIo_loop.simps) auto


lemma preferredLayout_TensorView:
  "preferredLayout a (TensorViewVal tv) =
     Inr (case alias_to_source a tv of
            Some sl \<Rightarrow> snd sl
          | None \<Rightarrow> \<lparr>allocation_domain = getMaybeAllocationDomain tv,
                       contiguity = getContiguity tv\<rparr>)"
  by (simp add: preferredLayout_def split: option.splits)

lemma finalize_entry_upd [simp]:
  "finalize_entry (a\<lparr>out_to_root := x\<rparr>) flag t = finalize_entry a flag t"
  by (simp add: finalize_entry_def findNearestAliasedIo_def preferredLayout_TensorView
        split: option.splits)

lemma finalize_loop_char:
  "finalize_loop flag outs a = Some (Inr a') \<Longrightarrow>
     alias_to_source a' = alias_to_source a
     \<and> (\<forall>t. out_to_root a' t =
           (if t \<in> set outs \<and> finalize_entry a flag t \<noteq> None then finalize_entry a flag t
            else out_to_root a t))"
proof (induction outs arbitrary: a)
  case Nil
  then show ?case by simp
next
  case (Cons out outs)
  obtain w where w: "findNearestAliasedIo a out = Some w"
    using Cons.prems by (auto split: option.splits)
  show ?case
  proof (cases w)
    case None
    with w Cons.prems have rest: "finalize_loop flag outs a = Some (Inr a')" by simp
    have "finalize_entry a flag out = None"
      using w None by (simp add: finalize_entry_def)
    with Cons.IH [OF rest] show ?thesis by auto
  next
    case (Some root)
    obtain L where L: "preferredLayout a (TensorViewVal out) = Inr L"
      by (simp add: preferredLayout_TensorView)
    obtain ok where ok: "okToRelayout out L flag = Inr ok"
      using Cons.prems w Some L by (auto split: sum.splits)
    show ?thesis
    proof (cases ok)
      case False
      with w Some L ok Cons.prems have rest: "finalize_loop flag outs a = Some (Inr a')" by simp
      have "finalize_entry a flag out = None"
        using w Some L ok False by (simp add: finalize_entry_def)
      with Cons.IH [OF rest] show ?thesis by auto
    next
      case True
      let ?a1 = "a\<lparr>out_to_root := (out_to_root a)(out \<mapsto> root)\<rparr>"
      from w Some L ok True Cons.prems have rest: "finalize_loop flag outs ?a1 = Some (Inr a')"
        by simp
      have e: "finalize_entry a flag out = Some root"
        using w Some L ok True by (simp add: finalize_entry_def)
      from Cons.IH [OF rest] e show ?thesis by auto
    qed
  qed
qed


lemma finalize_loop_returns:
  assumes "\<forall>t \<in> set outs. findNearestAliasedIo a t \<noteq> None"
      and "\<forall>t \<in> set outs. \<forall>L. preferredLayout a (TensorViewVal t) = Inr L \<longrightarrow>
             (\<exists>ok. okToRelayout t L flag = Inr ok)"
  shows "\<exists>a'. finalize_loop flag outs a = Some (Inr a')"
  using assms
proof (induction outs arbitrary: a)
  case Nil
  then show ?case by simp
next
  case (Cons out outs)
  have keep: "\<And>x. (\<forall>t \<in> set outs. findNearestAliasedIo (a\<lparr>out_to_root := x\<rparr>) t \<noteq> None)
      \<and> (\<forall>t \<in> set outs. \<forall>L. preferredLayout (a\<lparr>out_to_root := x\<rparr>) (TensorViewVal t) = Inr L \<longrightarrow>
             (\<exists>ok. okToRelayout t L flag = Inr ok))"
    using Cons.prems by (simp add: findNearestAliasedIo_def preferredLayout_TensorView)
  have same: "\<exists>a'. finalize_loop flag outs a = Some (Inr a')"
    using Cons.IH [of a] Cons.prems by simp
  have upd: "\<And>x. \<exists>a'. finalize_loop flag outs (a\<lparr>out_to_root := x\<rparr>) = Some (Inr a')"
    using Cons.IH keep by blast
  obtain w where w: "findNearestAliasedIo a out = Some w"
    using Cons.prems by auto
  obtain L where L: "preferredLayout a (TensorViewVal out) = Inr L"
    by (simp add: preferredLayout_TensorView)
  obtain ok where ok: "okToRelayout out L flag = Inr ok"
    using Cons.prems L by auto
  show ?case
    using w L ok same upd by (cases w; cases ok) auto
qed

lemma compliant_loop_defined:
  "\<forall>i \<in> set is. i < length actual \<and> i < length required \<Longrightarrow>
     \<exists>b. compliant_loop actual required is = Inr b"
  by (induction "is") (auto simp: vec_at_def)

lemma okToRelayout_defined:
  assumes "length (allocation_domain L) \<le> length (contiguity L)"
      and "length (getMaybeAllocationDomain t) \<le> length (getContiguity t)"
  shows "\<exists>ok. okToRelayout t L flag = Inr ok"
proof -
  define req where "req = (if flag then getAllocationDomain t else getMaybeAllocationDomain t)"
  have unfold: "okToRelayout t L flag =
      isCompliantWith L \<lparr>allocation_domain = req, contiguity = getContiguity t\<rparr>"
    by (simp add: okToRelayout_def req_def)
  have len: "length req \<le> length (getContiguity t)" if "req \<noteq> []"
    using that assms(2) by (auto simp: req_def getMaybeAllocationDomain_def split: if_splits)
  show ?thesis
  proof (cases "req = []")
    case True
    then show ?thesis by (auto simp: unfold isCompliantWith_def)
  next
    case ne: False
    show ?thesis
    proof (cases "allocation_domain L = req")
      case False
      with ne show ?thesis by (auto simp: unfold isCompliantWith_def)
    next
      case True
      with assms(1) len [OF ne] have "\<forall>i \<in> set [0..<length (allocation_domain L)].
          i < length (contiguity L) \<and> i < length (getContiguity t)"
        by auto
      from compliant_loop_defined [OF this] obtain b where
        "compliant_loop (contiguity L) (getContiguity t) [0..<length (allocation_domain L)] = Inr b"
        by blast
      with ne True show ?thesis by (auto simp: unfold isCompliantWith_def)
    qed
  qed
qed


lemma filterByType_TensorView_set:
  "set (filterByType_TensorView vs) = {tv. TensorViewVal tv \<in> set vs}"
  by (induction vs rule: filterByType_TensorView.induct) auto

text \<open>
  C10. For a tensor without entry in \<^verbatim>\<open>alias_to_source\<close> the chain walk ends at once
  and returns the null pointer, whether or not the tensor is a graph input or output; in
  particular it does not return its argument. \<^verbatim>\<open>finalize\<close> on that tensor alone
  returns the result unchanged, and \<^verbatim>\<open>finalize\<close> on any list of outputs leaves the
  entry of that tensor in \<^verbatim>\<open>out_to_root\<close> as it was.
\<close>

theorem findNearestAliasedIo_no_entry:
  assumes "alias_to_source a t = None"
  shows "findNearestAliasedIo a t = Some None
     \<and> findNearestAliasedIo a t \<noteq> Some (Some t)
     \<and> finalize a [TensorViewVal t] flag = Some (Inr a)
     \<and> (\<forall>outs a'. finalize a outs flag = Some (Inr a') \<longrightarrow> out_to_root a' t = out_to_root a t)"
proof -
  have w: "findNearestAliasedIo a t = Some None"
    using assms by (simp add: findNearestAliasedIo_def walk_no_entry)
  have e: "finalize_entry a flag t = None"
    using w by (simp add: finalize_entry_def)
  have "out_to_root a' t = out_to_root a t" if "finalize a outs flag = Some (Inr a')" for outs a'
    using finalize_loop_char [of flag "filterByType_TensorView outs" a a'] that e
    by (simp add: finalize_def)
  with w show ?thesis
    by (simp add: finalize_def)
qed

theorem findNearestAliasedIo_no_entry_witness:
  "alias_to_source gate_result gate_in = None
   \<and> isFusionInput gate_in
   \<and> findNearestAliasedIo gate_result gate_in = Some None
   \<and> finalize gate_result [TensorViewVal gate_in] True = Some (Inr gate_result)"
  using findNearestAliasedIo_no_entry [of gate_result gate_in True]
  by (simp add: gate_result_def gate_in_def gate_out_def plain_tensor_def)

text \<open>
  C5, as stated: with A an alias of B, B an alias of C and B neither input nor output,
  the chain walk resolves A to the first tensor that has no further source or is a graph
  input or output. When C has no source and is neither input nor output the walk returns
  the null pointer, not C.
\<close>

theorem alias_chain_counterexample:
  "alias_to_source chain_result chain_A = Some (chain_B, empty_layout)
   \<and> alias_to_source chain_result chain_B = Some (chain_C, empty_layout)
   \<and> \<not> isFusionInput chain_B \<and> \<not> isFusionOutput chain_B
   \<and> alias_to_source chain_result chain_C = None
   \<and> findNearestAliasedIo chain_result chain_A = Some None
   \<and> findNearestAliasedIo chain_result chain_A \<noteq> Some (Some chain_C)"
  by (simp add: chain_result_def chain_A_def chain_B_def chain_C_def plain_tensor_def
        findNearestAliasedIo_def findNearestAliasedIo_loop.simps)

text \<open>
  C5, amended: with A an alias of B, B an alias of C and B neither a graph input nor a
  graph output, the chain walk resolves A to C when C is a graph input or output, and
  otherwise continues from C as the walk from C does, returning the null pointer when C
  has no source. It never returns B; every tensor it returns is a graph input or output.
  After \<^verbatim>\<open>finalize\<close>, when A is among the outputs and its registered layout passes
  \<^verbatim>\<open>okToRelayout\<close>, \<^verbatim>\<open>getNearestAliasedIo\<close> of A is the tensor the walk returned.
\<close>

theorem alias_chain_transitive:
  assumes AB: "alias_to_source a A = Some (B, L1)"
      and BC: "alias_to_source a B = Some (C, L2)"
      and B_inner: "\<not> isFusionInput B \<and> \<not> isFusionOutput B"
  shows "(isFusionInput C \<or> isFusionOutput C \<longrightarrow> findNearestAliasedIo a A = Some (Some C))
     \<and> (\<not> isFusionInput C \<and> \<not> isFusionOutput C \<longrightarrow>
          findNearestAliasedIo a A = findNearestAliasedIo a C)
     \<and> (\<not> isFusionInput C \<and> \<not> isFusionOutput C \<and> alias_to_source a C = None \<longrightarrow>
          findNearestAliasedIo a A = Some None)
     \<and> findNearestAliasedIo a A \<noteq> Some (Some B)
     \<and> (\<forall>r. findNearestAliasedIo a A = Some (Some r) \<longrightarrow> isFusionInput r \<or> isFusionOutput r)
     \<and> (\<forall>outs flag a' r.
           finalize a outs flag = Some (Inr a') \<and> TensorViewVal A \<in> set outs
           \<and> findNearestAliasedIo a A = Some (Some r) \<and> okToRelayout A L1 flag = Inr True
           \<longrightarrow> getNearestAliasedIo a' A = Some r)"
proof -
  have step: "findNearestAliasedIo a A = findNearestAliasedIo a B"
    using AB B_inner by (simp add: findNearestAliasedIo_def walk_step_inner)
  have io: "findNearestAliasedIo a B = Some (Some C)" if "isFusionInput C \<or> isFusionOutput C"
    using BC that by (simp add: findNearestAliasedIo_def walk_step_io)
  have inner: "findNearestAliasedIo a B = findNearestAliasedIo a C"
    if "\<not> isFusionInput C \<and> \<not> isFusionOutput C"
    using BC that by (simp add: findNearestAliasedIo_def walk_step_inner)
  have none: "findNearestAliasedIo a C = Some None" if "alias_to_source a C = None"
    using that by (simp add: findNearestAliasedIo_def walk_no_entry)
  have is_io: "isFusionInput r \<or> isFusionOutput r" if "findNearestAliasedIo a A = Some (Some r)" for r
    using walk_result_is_io_aux [of "alias_to_source a" A "Some r"] that
    by (simp add: findNearestAliasedIo_def)
  have notB: "findNearestAliasedIo a A \<noteq> Some (Some B)"
    using is_io [of B] B_inner by blast
  have fin: "getNearestAliasedIo a' A = Some r"
    if "finalize a outs flag = Some (Inr a')" "TensorViewVal A \<in> set outs"
       "findNearestAliasedIo a A = Some (Some r)" "okToRelayout A L1 flag = Inr True"
    for outs flag a' r
  proof -
    have mem: "A \<in> set (filterByType_TensorView outs)"
      using that(2) by (simp add: filterByType_TensorView_set)
    have e: "finalize_entry a flag A = Some r"
      using that(3,4) AB by (simp add: finalize_entry_def preferredLayout_TensorView)
    from finalize_loop_char [of flag "filterByType_TensorView outs" a a'] that(1) mem e
    show ?thesis
      by (simp add: finalize_def getNearestAliasedIo_def)
  qed
  from step io inner none is_io notB fin show ?thesis
    by (intro conjI impI allI) auto
qed


lemma chain_to_input_finalize:
  "finalize chain_to_input [TensorViewVal chain_A] True =
     Some (Inr (chain_to_input\<lparr>out_to_root := [chain_A \<mapsto> chain_in]\<rparr>))"
  by (simp add: finalize_def chain_to_input_def chain_A_def chain_B_def chain_in_def
        plain_tensor_def findNearestAliasedIo_def findNearestAliasedIo_loop.simps
        preferredLayout_TensorView okToRelayout_def isCompliantWith_def empty_layout_def)

theorem alias_chain_transitive_witness:
  "alias_to_source chain_to_input chain_A = Some (chain_B, empty_layout)
   \<and> alias_to_source chain_to_input chain_B = Some (chain_in, empty_layout)
   \<and> \<not> isFusionInput chain_B \<and> \<not> isFusionOutput chain_B
   \<and> isFusionInput chain_in
   \<and> findNearestAliasedIo chain_to_input chain_A = Some (Some chain_in)
   \<and> okToRelayout chain_A empty_layout True = Inr True
   \<and> getNearestAliasedIo (chain_to_input\<lparr>out_to_root := [chain_A \<mapsto> chain_in]\<rparr>) chain_A
       = Some chain_in"
proof -
  have AB: "alias_to_source chain_to_input chain_A = Some (chain_B, empty_layout)"
    by (simp add: chain_to_input_def chain_A_def chain_B_def plain_tensor_def)
  have BC: "alias_to_source chain_to_input chain_B = Some (chain_in, empty_layout)"
    by (simp add: chain_to_input_def chain_A_def chain_B_def plain_tensor_def)
  have B_inner: "\<not> isFusionInput chain_B \<and> \<not> isFusionOutput chain_B"
    by (simp add: chain_B_def plain_tensor_def)
  have C_io: "isFusionInput chain_in"
    by (simp add: chain_in_def plain_tensor_def)
  have ok: "okToRelayout chain_A empty_layout True = Inr True"
    by (simp add: okToRelayout_def isCompliantWith_def chain_A_def plain_tensor_def)
  note chain = alias_chain_transitive [OF AB BC B_inner]
  from chain C_io have w: "findNearestAliasedIo chain_to_input chain_A = Some (Some chain_in)"
    by blast
  from chain chain_to_input_finalize w ok
  have "getNearestAliasedIo (chain_to_input\<lparr>out_to_root := [chain_A \<mapsto> chain_in]\<rparr>) chain_A
          = Some chain_in"
    by (metis list.set_intros(1))
  with AB BC B_inner C_io w ok show ?thesis by blast
qed

text \<open>
  C2, as stated: the target layout is the allocation domain as it is when the flag is
  false, and the allocation domain or, if empty, the default domain when the flag is
  true. With the flag true, an output without allocation domain whose registered layout
  transposes its default domain is not compliant with that target, yet \<^verbatim>\<open>finalize\<close>
  enters it into \<^verbatim>\<open>out_to_root\<close>.
\<close>

theorem finalize_gate_counterexample:
  "findNearestAliasedIo gate_result gate_out = Some (Some gate_in)
   \<and> preferredLayout gate_result (TensorViewVal gate_out) = Inr gate_layout
   \<and> isCompliantWith gate_layout (claimed_target_layout gate_out True) = Inr False
   \<and> finalize gate_result [TensorViewVal gate_out] True = Some (Inr gate_final)
   \<and> out_to_root gate_final gate_out = Some gate_in"
  by (simp add: gate_result_def gate_final_def gate_out_def gate_in_def gate_layout_def
        plain_tensor_def iter_dim_def finalize_def findNearestAliasedIo_def
        findNearestAliasedIo_loop.simps preferredLayout_TensorView okToRelayout_def
        isCompliantWith_def claimed_target_layout_def getMaybeRFactorDomain_def)

text \<open>
  C2, amended: the two cases of the flag are the other way round. When every chain walk
  from an output ends and the layouts have a contiguity entry for every dimension,
  \<^verbatim>\<open>finalize\<close> returns, leaves \<^verbatim>\<open>alias_to_source\<close> as it was, and for every output
  with a transitive root enters the pair of output and root into \<^verbatim>\<open>out_to_root\<close> if
  and only if the output's preferred layout is compliant with the target layout: the
  output's allocation domain as it is (no constraint when empty) when the flag is true,
  and the allocation domain or, if that is empty, the default domain when the flag is
  false. A candidate that is not compliant stays in \<^verbatim>\<open>alias_to_source\<close> and is absent
  from \<^verbatim>\<open>out_to_root\<close>.
\<close>

theorem finalize_gate:
  assumes walks: "\<forall>t \<in> set (filterByType_TensorView outs). findNearestAliasedIo a t \<noteq> None"
      and wfL: "\<forall>t \<in> set (filterByType_TensorView outs). \<forall>L.
                  preferredLayout a (TensorViewVal t) = Inr L \<longrightarrow>
                  length (allocation_domain L) \<le> length (contiguity L)"
      and wfT: "\<forall>t \<in> set (filterByType_TensorView outs).
                  length (getMaybeAllocationDomain t) \<le> length (getContiguity t)"
      and fresh: "out_to_root a = Map.empty"
  shows "\<exists>a'. finalize a outs flag = Some (Inr a')
     \<and> alias_to_source a' = alias_to_source a
     \<and> (\<forall>out root preferred.
           TensorViewVal out \<in> set outs
           \<and> findNearestAliasedIo a out = Some (Some root)
           \<and> preferredLayout a (TensorViewVal out) = Inr preferred
           \<longrightarrow> out_to_root a' out =
                 (if isCompliantWith preferred
                       \<lparr>allocation_domain =
                          (if flag then getAllocationDomain out
                           else if getAllocationDomain out = [] then getMaybeRFactorDomain out
                           else getAllocationDomain out),
                        contiguity = getContiguity out\<rparr> = Inr True
                  then Some root else None))"
proof -
  have "\<forall>t \<in> set (filterByType_TensorView outs). \<forall>L.
          preferredLayout a (TensorViewVal t) = Inr L \<longrightarrow> (\<exists>ok. okToRelayout t L flag = Inr ok)"
    using wfL wfT okToRelayout_defined by blast
  from finalize_loop_returns [OF walks this] obtain a' where
    fin: "finalize_loop flag (filterByType_TensorView outs) a = Some (Inr a')"
    by blast
  note char = finalize_loop_char [OF fin]
  have entry: "out_to_root a' out =
                 (if isCompliantWith preferred
                       \<lparr>allocation_domain =
                          (if flag then getAllocationDomain out
                           else if getAllocationDomain out = [] then getMaybeRFactorDomain out
                           else getAllocationDomain out),
                        contiguity = getContiguity out\<rparr> = Inr True
                  then Some root else None)"
    if "TensorViewVal out \<in> set outs" "findNearestAliasedIo a out = Some (Some root)"
       "preferredLayout a (TensorViewVal out) = Inr preferred"
    for out root preferred
  proof -
    have mem: "out \<in> set (filterByType_TensorView outs)"
      using that(1) by (simp add: filterByType_TensorView_set)
    have ok: "okToRelayout out preferred flag =
        isCompliantWith preferred
           \<lparr>allocation_domain =
              (if flag then getAllocationDomain out
               else if getAllocationDomain out = [] then getMaybeRFactorDomain out
               else getAllocationDomain out),
            contiguity = getContiguity out\<rparr>"
      by (simp add: okToRelayout_def getMaybeAllocationDomain_def)
    have e: "finalize_entry a flag out =
        (if okToRelayout out preferred flag = Inr True then Some root else None)"
      using that(2,3) by (simp add: finalize_entry_def)
    from char mem e fresh show ?thesis
      unfolding ok by auto
  qed
  from fin char entry show ?thesis
    unfolding finalize_def by blast
qed


theorem finalize_gate_witness:
  "findNearestAliasedIo gate_result gate_out = Some (Some gate_in)
   \<and> preferredLayout gate_result (TensorViewVal gate_out) = Inr gate_layout
   \<and> length (allocation_domain gate_layout) \<le> length (contiguity gate_layout)
   \<and> length (getMaybeAllocationDomain gate_out) \<le> length (getContiguity gate_out)
   \<and> finalize gate_result [TensorViewVal gate_out] False = Some (Inr gate_result)
   \<and> alias_to_source gate_result gate_out = Some (gate_in, gate_layout)
   \<and> out_to_root gate_result gate_out = None"
proof -
  have w: "findNearestAliasedIo gate_result gate_out = Some (Some gate_in)"
    by (simp add: gate_result_def gate_out_def gate_in_def plain_tensor_def
          findNearestAliasedIo_def findNearestAliasedIo_loop.simps)
  have p: "preferredLayout gate_result (TensorViewVal gate_out) = Inr gate_layout"
    by (simp add: gate_result_def preferredLayout_TensorView)
  have l1: "length (allocation_domain gate_layout) \<le> length (contiguity gate_layout)"
    by (simp add: gate_layout_def)
  have l2: "length (getMaybeAllocationDomain gate_out) \<le> length (getContiguity gate_out)"
    by (simp add: gate_out_def plain_tensor_def getMaybeAllocationDomain_def
          getMaybeRFactorDomain_def)
  have fresh: "out_to_root gate_result = Map.empty"
    by (simp add: gate_result_def)
  have nc: "isCompliantWith gate_layout
              \<lparr>allocation_domain =
                 (if False then getAllocationDomain gate_out
                  else if getAllocationDomain gate_out = [] then getMaybeRFactorDomain gate_out
                  else getAllocationDomain gate_out),
               contiguity = getContiguity gate_out\<rparr> = Inr False"
    by (simp add: gate_layout_def gate_out_def plain_tensor_def getMaybeRFactorDomain_def
          isCompliantWith_def iter_dim_def)
  have f: "finalize gate_result [TensorViewVal gate_out] False = Some (Inr gate_result)"
    using finalize_gate [of "[TensorViewVal gate_out]" gate_result False] w p l1 l2 fresh nc
    by (simp add: finalize_def okToRelayout_def getMaybeAllocationDomain_def)
  from w p l1 l2 f fresh show ?thesis
    by (simp add: gate_result_def)
qed

subsection \<open>The slice rule\<close>

lemma slice3_run:
  "handle_SliceOp empty_result slice3 =
     Inr slice3_result"
  by (simp add: slice3_result_def handle_SliceOp_def slice3_def slice3_in_def slice3_out_def slice3_layout_def
        plain_tensor_def iter_dim_def getMaybeRFactorDomain_def Let_def empty_result_def
        preferredLayout_TensorView getMaybeAllocationDomain_def computePermutation_def
        vec_at_def map_at_def add_def upt_rec numeral_3_eq_3)

lemma slice1_run:
  "handle_SliceOp empty_result slice1 =
     Inr slice1_result"
  by (simp add: slice1_result_def handle_SliceOp_def slice1_def slice1_in_def slice1_out_def slice1_layout_def
        plain_tensor_def iter_dim_def bcast_dim_def getMaybeRFactorDomain_def Let_def empty_result_def
        preferredLayout_TensorView getMaybeAllocationDomain_def computePermutation_def
        vec_at_def map_at_def add_def upt_rec numeral_2_eq_2)

lemma pending_flag_snoc:
  "pending_flag init sliced (ds @ [d]) =
     pending_flag (sliced d \<or> (isBroadcast d \<and> init)) sliced ds"
  by (induction ds) auto


lemma slice_scan_step:
  assumes "slice_scan alloc in_c sliced (Suc k) flag out_c = Inr res"
  shows "k < length alloc
     \<and> (\<not> isBroadcast (alloc ! k) \<and> \<not> flag \<longrightarrow> k < length in_c)
     \<and> slice_scan alloc in_c sliced k
          (sliced (alloc ! k) \<or> (isBroadcast (alloc ! k) \<and> flag))
          (out_c[k := (if isBroadcast (alloc ! k) then None
                       else if flag then Some False else in_c ! k)]) = Inr res"
  using assms
  by (auto simp: vec_at_def split: if_splits sum.splits)

lemma slice_scan_result:
  "slice_scan alloc in_c sliced k flag out_c = Inr res \<Longrightarrow> k \<le> length out_c \<Longrightarrow>
     k \<le> length alloc \<and> length res = length out_c
     \<and> (\<forall>i<k. res ! i =
           (if isBroadcast (alloc ! i) then None
            else if pending_flag flag sliced (drop (Suc i) (take k alloc)) then Some False
            else in_c ! i))
     \<and> (\<forall>i. k \<le> i \<and> i < length out_c \<longrightarrow> res ! i = out_c ! i)"
proof (induction k arbitrary: flag out_c)
  case 0
  then show ?case by simp
next
  case (Suc k)
  let ?d = "alloc ! k"
  let ?c = "if isBroadcast ?d then None else if flag then Some False else in_c ! k"
  let ?flag' = "sliced ?d \<or> (isBroadcast ?d \<and> flag)"
  from slice_scan_step [OF Suc.prems(1)] have
    k: "k < length alloc" and
    rest: "slice_scan alloc in_c sliced k ?flag' (out_c[k := ?c]) = Inr res"
    by auto
  from Suc.prems(2) have kl: "k \<le> length (out_c[k := ?c])" by simp
  from Suc.IH [OF rest kl] have
    len: "length res = length out_c" and
    low: "\<forall>i<k. res ! i =
           (if isBroadcast (alloc ! i) then None
            else if pending_flag ?flag' sliced (drop (Suc i) (take k alloc)) then Some False
            else in_c ! i)" and
    high: "\<forall>i. k \<le> i \<and> i < length out_c \<longrightarrow> res ! i = (out_c[k := ?c]) ! i"
    by auto
  have take: "take (Suc k) alloc = take k alloc @ [?d]"
    using k by (simp add: take_Suc_conv_app_nth)
  have pend: "pending_flag flag sliced (drop (Suc i) (take (Suc k) alloc)) =
              pending_flag ?flag' sliced (drop (Suc i) (take k alloc))" if "i < k" for i
    using that k by (simp add: take pending_flag_snoc)
  have at_k: "res ! k = ?c"
    using high Suc.prems(2) by simp
  have pend_k: "pending_flag flag sliced (drop (Suc k) (take (Suc k) alloc)) = flag"
    by simp
  have all_low: "res ! i =
           (if isBroadcast (alloc ! i) then None
            else if pending_flag flag sliced (drop (Suc i) (take (Suc k) alloc)) then Some False
            else in_c ! i)" if "i < Suc k" for i
  proof (cases "i = k")
    case True
    with at_k pend_k show ?thesis by simp
  next
    case False
    with that have "i < k" by simp
    with low pend [OF this] show ?thesis by simp
  qed
  have all_high: "res ! i = out_c ! i" if "Suc k \<le> i \<and> i < length out_c" for i
    using high that by simp
  from k len all_low all_high show ?case
    by auto
qed

lemma slice_scan_defined:
  "k \<le> length alloc \<Longrightarrow> k \<le> length in_c \<Longrightarrow>
     \<exists>res. slice_scan alloc in_c sliced k flag out_c = Inr res"
  by (induction k arbitrary: flag out_c) (auto simp: vec_at_def)


lemma add_registers:
  "add a al src lay = Inr a' \<Longrightarrow> alias_to_source a' al = Some (src, lay)"
  by (auto simp: add_def split: option.splits)

text \<open>
  C4, as stated: broadcast dimensions pass the pending flag through unchanged and only a
  sliced dimension that is not a broadcast raises it. When the minor dimension of a
  contiguous 2-D input is sliced into a broadcast dimension, the rule marks the outer
  dimension non-contiguous, where the statement gives it the input's contiguity.
\<close>

theorem slice_contiguity_counterexample:
  "handle_SliceOp empty_result slice1 = Inr slice1_result
   \<and> alias_to_source slice1_result slice1_out = Some (slice1_in, slice1_layout)
   \<and> contiguity slice1_layout = [Some False, None]
   \<and> claimed_slice_contiguity (allocation_domain slice1_layout) (getContiguity slice1_in)
        (slice_hasResize slice1) = [Some True, None]"
  using slice1_run
  by (simp add: slice1_result_def slice1_layout_def slice1_def slice1_in_def plain_tensor_def
        claimed_slice_contiguity_def iter_dim_def bcast_dim_def upt_rec numeral_2_eq_2)

lemma slice_allocation_loop_length:
  "slice_allocation_loop p2c r2rf ds acc = Inr out_alloc \<Longrightarrow>
     length out_alloc = length acc + length (filter (\<lambda>d. \<not> isReduction d) ds)"
  by (induction ds arbitrary: acc) (auto split: if_splits sum.splits)

lemma slice_allocation_loop_images:
  "slice_allocation_loop p2c r2rf ds acc = Inr out_alloc \<Longrightarrow>
     \<exists>images. out_alloc = acc @ images
       \<and> list_all2 (\<lambda>d image. \<exists>r. p2c d = Some r \<and> r2rf r = Some image)
            (filter (\<lambda>d. \<not> isReduction d) ds) images"
proof (induction ds arbitrary: acc)
  case Nil
  then show ?case by simp
next
  case (Cons d ds)
  show ?case
  proof (cases "isReduction d")
    case True
    with Cons.prems have "slice_allocation_loop p2c r2rf ds acc = Inr out_alloc"
      by simp
    from Cons.IH [OF this] True show ?thesis
      by simp
  next
    case False
    with Cons.prems obtain r image where
      r: "p2c d = Some r" and image: "r2rf r = Some image" and
      rest: "slice_allocation_loop p2c r2rf ds (acc @ [image]) = Inr out_alloc"
      by (auto simp: map_at_def split: sum.splits option.splits)
    from Cons.IH [OF rest] obtain images where
      "out_alloc = (acc @ [image]) @ images" and
      "list_all2 (\<lambda>d image. \<exists>r. p2c d = Some r \<and> r2rf r = Some image)
            (filter (\<lambda>d. \<not> isReduction d) ds) images"
      by blast
    with r image False have "out_alloc = acc @ (image # images)
       \<and> list_all2 (\<lambda>d image. \<exists>r. p2c d = Some r \<and> r2rf r = Some image)
            (filter (\<lambda>d. \<not> isReduction d) (d # ds)) (image # images)"
      by simp
    then show ?thesis
      by blast
  qed
qed

lemma slice_keep_run:
  "handle_SliceOp empty_result slice_keep =
     Inr \<lparr>alias_to_source =
            [slice_keep_out \<mapsto>
               (slice_red_in,
                \<lparr>allocation_domain = [iter_dim 3, iter_dim 4], contiguity = [None, Some True]\<rparr>)],
          out_to_root = Map.empty\<rparr>"
  by (simp add: handle_SliceOp_def slice_keep_def slice_red_in_def slice_keep_out_def
        plain_tensor_def iter_dim_def reduction_dim_def getMaybeRFactorDomain_def Let_def
        empty_result_def preferredLayout_TensorView getMaybeAllocationDomain_def
        computePermutation_def vec_at_def map_at_def add_def upt_rec numeral_2_eq_2)

text \<open>
  C4, amended: the slice rule maps the dimensions of the input's allocation domain that
  are not reductions, in their order, to the output, and scans the output allocation
  domain from minor-most to major-most. A broadcast dimension gets nullopt contiguity and
  keeps a pending flag pending; every sliced dimension, broadcast or not, raises the flag;
  the next non-broadcast dimension outward is marked non-contiguous and clears the flag.
  Every other dimension gets the entry of the input's contiguity at its own index, which
  is the entry of its input dimension when the input's allocation domain has no
  reduction dimension (\<open>slice_keep_run\<close> is a run where it has one). For the contiguous
  3-D input with allocation order d0, d1, d2 of which only d2 is sliced, the output
  contiguity is true, false, true.
\<close>

theorem slice_contiguity:
  "(handle_SliceOp a s = Inr a'
    \<and> preferredLayout a (TensorViewVal (slice_in s)) = Inr in_layout
    \<and> computePermutation (getMaybeRFactorDomain (slice_in s)) (allocation_domain in_layout) \<noteq> None
    \<longrightarrow> (\<exists>out_root_to_rfactor out_alloc out_c.
           alias_to_source a' (slice_out s) =
             Some (slice_in s, \<lparr>allocation_domain = out_alloc, contiguity = out_c\<rparr>)
           \<and> build_out_root_to_rfactor (getRootDomain (slice_out s))
                (getMaybeRFactorDomain (slice_out s))
                [0..<length (getMaybeRFactorDomain (slice_out s))] Map.empty
               = Inr out_root_to_rfactor
           \<and> list_all2
                (\<lambda>d image. \<exists>r. slice_mapProducerToConsumer s d = Some r
                                \<and> out_root_to_rfactor r = Some image)
                (filter (\<lambda>d. \<not> isReduction d) (allocation_domain in_layout)) out_alloc
           \<and> length out_c = length (getMaybeRFactorDomain (slice_out s))
           \<and> length out_c \<le> length out_alloc
           \<and> (\<forall>i < length out_c. out_c ! i =
                 (if isBroadcast (out_alloc ! i) then None
                  else if pending_flag False (slice_hasResize s)
                            (drop (Suc i) (take (length out_c) out_alloc))
                       then Some False
                  else contiguity in_layout ! i))))
   \<and> handle_SliceOp empty_result slice3 = Inr slice3_result
   \<and> alias_to_source slice3_result slice3_out = Some (slice3_in, slice3_layout)
   \<and> contiguity slice3_layout = [Some True, Some False, Some True]"
proof (intro conjI impI)
  assume H: "handle_SliceOp a s = Inr a'
    \<and> preferredLayout a (TensorViewVal (slice_in s)) = Inr in_layout
    \<and> computePermutation (getMaybeRFactorDomain (slice_in s)) (allocation_domain in_layout) \<noteq> None"
  define n where "n = length (getMaybeRFactorDomain (slice_out s))"
  from H obtain r2rf out_alloc out_c where
    build: "build_out_root_to_rfactor (getRootDomain (slice_out s))
              (getMaybeRFactorDomain (slice_out s)) [0..<n] Map.empty = Inr r2rf" and
    alloc: "slice_allocation_loop (slice_mapProducerToConsumer s) r2rf
              (allocation_domain in_layout) [] = Inr out_alloc" and
    scan: "slice_scan out_alloc (contiguity in_layout) (slice_hasResize s) n False
             (replicate n None) = Inr out_c" and
    reg: "add a (slice_out s) (slice_in s)
            \<lparr>allocation_domain = out_alloc, contiguity = out_c\<rparr> = Inr a'"
    by (auto simp: handle_SliceOp_def Let_def n_def split: sum.splits)
  from slice_allocation_loop_images [OF alloc]
  have images: "list_all2
                (\<lambda>d image. \<exists>r. slice_mapProducerToConsumer s d = Some r \<and> r2rf r = Some image)
                (filter (\<lambda>d. \<not> isReduction d) (allocation_domain in_layout)) out_alloc"
    by simp
  from slice_scan_result [OF scan] have
    "n \<le> length out_alloc" and "length out_c = n" and
    "\<forall>i<n. out_c ! i =
       (if isBroadcast (out_alloc ! i) then None
        else if pending_flag False (slice_hasResize s) (drop (Suc i) (take n out_alloc))
             then Some False
        else contiguity in_layout ! i)"
    by auto
  with add_registers [OF reg] build images have concl: "alias_to_source a' (slice_out s) =
             Some (slice_in s, \<lparr>allocation_domain = out_alloc, contiguity = out_c\<rparr>)
           \<and> build_out_root_to_rfactor (getRootDomain (slice_out s))
                (getMaybeRFactorDomain (slice_out s))
                [0..<length (getMaybeRFactorDomain (slice_out s))] Map.empty
               = Inr r2rf
           \<and> list_all2
                (\<lambda>d image. \<exists>r. slice_mapProducerToConsumer s d = Some r
                                \<and> r2rf r = Some image)
                (filter (\<lambda>d. \<not> isReduction d) (allocation_domain in_layout)) out_alloc
           \<and> length out_c = length (getMaybeRFactorDomain (slice_out s))
           \<and> length out_c \<le> length out_alloc
           \<and> (\<forall>i < length out_c. out_c ! i =
                 (if isBroadcast (out_alloc ! i) then None
                  else if pending_flag False (slice_hasResize s)
                            (drop (Suc i) (take (length out_c) out_alloc))
                       then Some False
                  else contiguity in_layout ! i))"
    unfolding n_def by simp
  show "\<exists>out_root_to_rfactor out_alloc out_c.
           alias_to_source a' (slice_out s) =
             Some (slice_in s, \<lparr>allocation_domain = out_alloc, contiguity = out_c\<rparr>)
           \<and> build_out_root_to_rfactor (getRootDomain (slice_out s))
                (getMaybeRFactorDomain (slice_out s))
                [0..<length (getMaybeRFactorDomain (slice_out s))] Map.empty
               = Inr out_root_to_rfactor
           \<and> list_all2
                (\<lambda>d image. \<exists>r. slice_mapProducerToConsumer s d = Some r
                                \<and> out_root_to_rfactor r = Some image)
                (filter (\<lambda>d. \<not> isReduction d) (allocation_domain in_layout)) out_alloc
           \<and> length out_c = length (getMaybeRFactorDomain (slice_out s))
           \<and> length out_c \<le> length out_alloc
           \<and> (\<forall>i < length out_c. out_c ! i =
                 (if isBroadcast (out_alloc ! i) then None
                  else if pending_flag False (slice_hasResize s)
                            (drop (Suc i) (take (length out_c) out_alloc))
                       then Some False
                  else contiguity in_layout ! i))"
    by (rule exI [of _ r2rf], rule exI [of _ out_alloc], rule exI [of _ out_c]) (rule concl)
next
  show "handle_SliceOp empty_result slice3 = Inr slice3_result"
    by (rule slice3_run)
  show "alias_to_source slice3_result slice3_out = Some (slice3_in, slice3_layout)"
    by (simp add: slice3_result_def)
  show "contiguity slice3_layout = [Some True, Some False, Some True]"
    by (simp add: slice3_layout_def)
qed

theorem slice_contiguity_witness:
  "handle_SliceOp empty_result slice3 = Inr slice3_result
   \<and> preferredLayout empty_result (TensorViewVal (slice_in slice3)) =
       Inr \<lparr>allocation_domain = [iter_dim 0, iter_dim 1, iter_dim 2],
            contiguity = [Some True, Some True, Some True]\<rparr>
   \<and> computePermutation (getMaybeRFactorDomain (slice_in slice3))
        [iter_dim 0, iter_dim 1, iter_dim 2] \<noteq> None
   \<and> alias_to_source slice3_result (slice_out slice3) = Some (slice_in slice3, slice3_layout)
   \<and> pending_flag False (slice_hasResize slice3) (drop 2 (allocation_domain slice3_layout))
   \<and> contiguity slice3_layout ! 1 = Some False"
  using slice_contiguity [of empty_result slice3 slice3_result
          "\<lparr>allocation_domain = [iter_dim 0, iter_dim 1, iter_dim 2],
            contiguity = [Some True, Some True, Some True]\<rparr>"]
  by (simp add: slice3_result_def slice3_def slice3_in_def slice3_layout_def plain_tensor_def
        preferredLayout_TensorView empty_result_def getMaybeAllocationDomain_def
        getMaybeRFactorDomain_def computePermutation_def iter_dim_def)

subsection \<open>Rules that decline\<close>

lemma replay_append:
  "replay c2p (pre @ ts) m =
     (case replay c2p pre m of
        Inl e \<Rightarrow> Inl e
      | Inr None \<Rightarrow> Inr None
      | Inr (Some m') \<Rightarrow> replay c2p ts m')"
  by (induction pre arbitrary: m) (auto split: sum.splits option.splits)

lemma lhm_erase_at:
  "key \<notin> fst ` set ms \<Longrightarrow>
     lhm_erase (ms @ (key, v) # rest) key =
       Inr (v, (case rest of [] \<Rightarrow> None | (k', _) # _ \<Rightarrow> Some k'), ms @ rest)"
  by (induction ms) auto

lemma build_out_root_to_rfactor_defined:
  "\<forall>i \<in> set is. i < length out_root \<Longrightarrow>
     \<exists>m'. build_out_root_to_rfactor out_root out_rfactor is m = Inr m'"
  by (induction "is" arbitrary: m) (auto simp: vec_at_def)


lemma merge_not_adjacent:
  assumes "outer \<notin> fst ` set ms"
      and "rest = [] \<or> fst (hd rest) \<noteq> inner"
      and "map_or_identity c2p m_outer = outer" "map_or_identity c2p m_inner = inner"
  shows "replay_step c2p (Merge m_outer m_inner m_out) (ms @ (outer, oc) # rest) = Inr None"
  using assms by (cases rest) (auto simp: lhm_erase_at)

lemma merge_not_mergeable:
  assumes "outer \<notin> fst ` set ms" "inner \<notin> fst ` set ms"
      and "mergeContiguity outer oc inner ic = Inr (False, c)"
      and "map_or_identity c2p m_outer = outer" "map_or_identity c2p m_inner = inner"
  shows "replay_step c2p (Merge m_outer m_inner m_out) (ms @ (outer, oc) # (inner, ic) # rest)
           = Inr None"
  using assms by (simp add: lhm_erase_at)

lemma not_permutation_refused:
  assumes "rule_input expr = Some inp"
      and "preferredLayout analysis (TensorViewVal inp) = Inr in_layout"
      and "computePermutation (getMaybeRFactorDomain inp) (allocation_domain in_layout) = None"
      and "\<forall>slice. expr = IsSliceOp slice \<longrightarrow>
             length (getMaybeRFactorDomain (slice_out slice)) \<le> length (getRootDomain (slice_out slice))"
  shows "dispatch analysis expr = Inr analysis"
proof (cases expr)
  case (IsViewOp view)
  with assms show ?thesis
    by (simp add: dispatch_def rule_input_def handle_ViewOp_def Let_def)
next
  case (IsLoadStoreOp permute)
  with assms show ?thesis
    by (auto simp: dispatch_def rule_input_def handle_LoadStoreOp_def split: Val.splits)
next
  case (IsSliceOp slice)
  with assms(4) have "\<forall>i \<in> set [0..<length (getMaybeRFactorDomain (slice_out slice))].
      i < length (getRootDomain (slice_out slice))"
    by auto
  from build_out_root_to_rfactor_defined [OF this] obtain m' where
    "build_out_root_to_rfactor (getRootDomain (slice_out slice))
       (getMaybeRFactorDomain (slice_out slice))
       [0..<length (getMaybeRFactorDomain (slice_out slice))] Map.empty = Inr m'"
    by blast
  with IsSliceOp assms show ?thesis
    by (simp add: dispatch_def rule_input_def handle_SliceOp_def Let_def)
next
  case (IsBroadcastOp bcast)
  with assms show ?thesis
    by (auto simp: dispatch_def rule_input_def handle_BroadcastOp_def Let_def split: Val.splits)
next
  case (IsSqueezeOp squeeze)
  with assms show ?thesis
    by (auto simp: dispatch_def rule_input_def handle_SqueezeOp_def split: Val.splits)
next
  case IsOtherOp
  with assms show ?thesis
    by (simp add: rule_input_def)
qed

lemma view_refused_in_replay:
  assumes "preferredLayout analysis (TensorViewVal (view_in view)) = Inr in_layout"
      and "collect_allocation in_layout [0..<length (allocation_domain in_layout)] [] = Inr m0"
      and "view_exprsBetween view = pre @ transform # post"
      and "replay (view_mapConsumerToProducer view) pre m0 = Inr (Some m)"
      and "replay_step (view_mapConsumerToProducer view) transform m = Inr None"
  shows "dispatch analysis (IsViewOp view) = Inr analysis"
proof -
  have "replay (view_mapConsumerToProducer view) (view_exprsBetween view) m0 = Inr None"
    using assms(3,4,5) by (simp add: replay_append)
  with assms(1,2) show ?thesis
    by (simp add: dispatch_def handle_ViewOp_def Let_def)
qed

text \<open>
  C6. A rule that declines leaves the analysis result as it was and raises no error:
  every rule, when the logical domain of its input is not a permutation of the
  allocation domain of the input's preferred layout (for a slice whose output has a root
  entry for every rfactor position); the view rule, when the replay reaches a merge
  whose outer operand is not directly followed by its inner operand in the current
  allocation order, or a merge of two adjacent operands that the contiguity table
  refuses.
\<close>

theorem soft_refusal:
  "(rule_input expr = Some inp
    \<and> preferredLayout analysis (TensorViewVal inp) = Inr in_layout
    \<and> computePermutation (getMaybeRFactorDomain inp) (allocation_domain in_layout) = None
    \<and> (\<forall>slice. expr = IsSliceOp slice \<longrightarrow>
          length (getMaybeRFactorDomain (slice_out slice)) \<le> length (getRootDomain (slice_out slice)))
    \<longrightarrow> dispatch analysis expr = Inr analysis)
   \<and> (preferredLayout analysis (TensorViewVal (view_in view)) = Inr in_layout
      \<and> collect_allocation in_layout [0..<length (allocation_domain in_layout)] [] = Inr m0
      \<and> view_exprsBetween view = pre @ Merge m_outer m_inner m_out # post
      \<and> replay (view_mapConsumerToProducer view) pre m0 =
          Inr (Some (ms @ (map_or_identity (view_mapConsumerToProducer view) m_outer, oc) # rest))
      \<and> map_or_identity (view_mapConsumerToProducer view) m_outer \<notin> fst ` set ms
      \<and> (rest = [] \<or> fst (hd rest) \<noteq> map_or_identity (view_mapConsumerToProducer view) m_inner)
      \<longrightarrow> dispatch analysis (IsViewOp view) = Inr analysis)
   \<and> (preferredLayout analysis (TensorViewVal (view_in view)) = Inr in_layout
      \<and> collect_allocation in_layout [0..<length (allocation_domain in_layout)] [] = Inr m0
      \<and> view_exprsBetween view = pre @ Merge m_outer m_inner m_out # post
      \<and> replay (view_mapConsumerToProducer view) pre m0 =
          Inr (Some (ms @ (map_or_identity (view_mapConsumerToProducer view) m_outer, oc)
                        # (map_or_identity (view_mapConsumerToProducer view) m_inner, ic) # rest))
      \<and> map_or_identity (view_mapConsumerToProducer view) m_outer \<notin> fst ` set ms
      \<and> map_or_identity (view_mapConsumerToProducer view) m_inner \<notin> fst ` set ms
      \<and> mergeContiguity (map_or_identity (view_mapConsumerToProducer view) m_outer) oc
           (map_or_identity (view_mapConsumerToProducer view) m_inner) ic = Inr (False, c)
      \<longrightarrow> dispatch analysis (IsViewOp view) = Inr analysis)"
proof (intro conjI impI)
  assume "rule_input expr = Some inp
    \<and> preferredLayout analysis (TensorViewVal inp) = Inr in_layout
    \<and> computePermutation (getMaybeRFactorDomain inp) (allocation_domain in_layout) = None
    \<and> (\<forall>slice. expr = IsSliceOp slice \<longrightarrow>
          length (getMaybeRFactorDomain (slice_out slice)) \<le> length (getRootDomain (slice_out slice)))"
  then show "dispatch analysis expr = Inr analysis"
    using not_permutation_refused by blast
next
  let ?c2p = "view_mapConsumerToProducer view"
  assume H: "preferredLayout analysis (TensorViewVal (view_in view)) = Inr in_layout
      \<and> collect_allocation in_layout [0..<length (allocation_domain in_layout)] [] = Inr m0
      \<and> view_exprsBetween view = pre @ Merge m_outer m_inner m_out # post
      \<and> replay ?c2p pre m0 = Inr (Some (ms @ (map_or_identity ?c2p m_outer, oc) # rest))
      \<and> map_or_identity ?c2p m_outer \<notin> fst ` set ms
      \<and> (rest = [] \<or> fst (hd rest) \<noteq> map_or_identity ?c2p m_inner)"
  then have step: "replay_step ?c2p (Merge m_outer m_inner m_out)
               (ms @ (map_or_identity ?c2p m_outer, oc) # rest) = Inr None"
    by (intro merge_not_adjacent) auto
  from H have h1: "preferredLayout analysis (TensorViewVal (view_in view)) = Inr in_layout"
    and h2: "collect_allocation in_layout [0..<length (allocation_domain in_layout)] [] = Inr m0"
    and h3: "view_exprsBetween view = pre @ Merge m_outer m_inner m_out # post"
    and h4: "replay ?c2p pre m0 = Inr (Some (ms @ (map_or_identity ?c2p m_outer, oc) # rest))"
    by blast+
  show "dispatch analysis (IsViewOp view) = Inr analysis"
    by (rule view_refused_in_replay [OF h1 h2 h3 h4 step])
next
  let ?c2p = "view_mapConsumerToProducer view"
  assume H: "preferredLayout analysis (TensorViewVal (view_in view)) = Inr in_layout
      \<and> collect_allocation in_layout [0..<length (allocation_domain in_layout)] [] = Inr m0
      \<and> view_exprsBetween view = pre @ Merge m_outer m_inner m_out # post
      \<and> replay ?c2p pre m0 =
          Inr (Some (ms @ (map_or_identity ?c2p m_outer, oc)
                        # (map_or_identity ?c2p m_inner, ic) # rest))
      \<and> map_or_identity ?c2p m_outer \<notin> fst ` set ms
      \<and> map_or_identity ?c2p m_inner \<notin> fst ` set ms
      \<and> mergeContiguity (map_or_identity ?c2p m_outer) oc
           (map_or_identity ?c2p m_inner) ic = Inr (False, c)"
  then have step: "replay_step ?c2p (Merge m_outer m_inner m_out)
               (ms @ (map_or_identity ?c2p m_outer, oc)
                   # (map_or_identity ?c2p m_inner, ic) # rest) = Inr None"
    by (intro merge_not_mergeable) auto
  from H have h1: "preferredLayout analysis (TensorViewVal (view_in view)) = Inr in_layout"
    and h2: "collect_allocation in_layout [0..<length (allocation_domain in_layout)] [] = Inr m0"
    and h3: "view_exprsBetween view = pre @ Merge m_outer m_inner m_out # post"
    and h4: "replay ?c2p pre m0 =
          Inr (Some (ms @ (map_or_identity ?c2p m_outer, oc)
                        # (map_or_identity ?c2p m_inner, ic) # rest))"
    by blast+
  show "dispatch analysis (IsViewOp view) = Inr analysis"
    by (rule view_refused_in_replay [OF h1 h2 h3 h4 step])
qed


theorem soft_refusal_witness:
  "computePermutation (getMaybeRFactorDomain copy_split_in) (getAllocationDomain copy_split_in) = None
   \<and> dispatch empty_result (IsLoadStoreOp copy_split) = Inr empty_result
   \<and> collect_allocation
        \<lparr>allocation_domain = [iter_dim 1, iter_dim 0, iter_dim 2],
         contiguity = [Some True, Some True, Some True]\<rparr> [0..<3] []
       = Inr [(iter_dim 1, Some True), (iter_dim 0, Some True), (iter_dim 2, Some True)]
   \<and> dispatch empty_result (IsViewOp view_far) = Inr empty_result
   \<and> mergeContiguity (iter_dim 0) (Some False) (iter_dim 1) (Some True) = Inr (False, None)
   \<and> dispatch empty_result (IsViewOp view_strided) = Inr empty_result"
proof -
  let ?far = "\<lparr>allocation_domain = [iter_dim 1, iter_dim 0, iter_dim 2],
               contiguity = [Some True, Some True, Some True]\<rparr>"
  let ?strided = "\<lparr>allocation_domain = [iter_dim 0, iter_dim 1],
                   contiguity = [Some False, Some True]\<rparr>"
  let ?split = "\<lparr>allocation_domain = [iter_dim 0, iter_dim 7, iter_dim 8],
                 contiguity = [Some True, Some True, Some True]\<rparr>"
  have p1: "computePermutation (getMaybeRFactorDomain copy_split_in)
              (getAllocationDomain copy_split_in) = None"
    by (simp add: copy_split_in_def getMaybeRFactorDomain_def computePermutation_def iter_dim_def)
  have a1: "rule_input (IsLoadStoreOp copy_split) = Some copy_split_in
    \<and> preferredLayout empty_result (TensorViewVal copy_split_in) = Inr ?split
    \<and> computePermutation (getMaybeRFactorDomain copy_split_in) (allocation_domain ?split) = None
    \<and> (\<forall>slice. IsLoadStoreOp copy_split = IsSliceOp slice \<longrightarrow>
          length (getMaybeRFactorDomain (slice_out slice)) \<le> length (getRootDomain (slice_out slice)))"
    using p1
    by (simp add: rule_input_def copy_split_def preferredLayout_TensorView empty_result_def
          getMaybeAllocationDomain_def copy_split_in_def)
  have r1: "dispatch empty_result (IsLoadStoreOp copy_split) = Inr empty_result"
    using soft_refusal [where expr = "IsLoadStoreOp copy_split" and inp = copy_split_in
        and analysis = empty_result and in_layout = ?split] a1
    by blast
  have c2: "collect_allocation ?far [0..<3] []
       = Inr [(iter_dim 1, Some True), (iter_dim 0, Some True), (iter_dim 2, Some True)]"
    by (simp add: upt_rec numeral_3_eq_3 vec_at_def lhm_pushBack_def lhm_insert_def iter_dim_def)
  have a2: "preferredLayout empty_result (TensorViewVal (view_in view_far)) = Inr ?far
      \<and> collect_allocation ?far [0..<length (allocation_domain ?far)] []
          = Inr [(iter_dim 1, Some True), (iter_dim 0, Some True), (iter_dim 2, Some True)]
      \<and> view_exprsBetween view_far = [] @ Merge (iter_dim 3) (iter_dim 4) (iter_dim 6) # []
      \<and> replay (view_mapConsumerToProducer view_far) []
            [(iter_dim 1, Some True), (iter_dim 0, Some True), (iter_dim 2, Some True)] =
          Inr (Some ([(iter_dim 1, Some True)]
                 @ (map_or_identity (view_mapConsumerToProducer view_far) (iter_dim 3), Some True)
                 # [(iter_dim 2, Some True)]))
      \<and> map_or_identity (view_mapConsumerToProducer view_far) (iter_dim 3)
            \<notin> fst ` set [(iter_dim 1, Some True)]
      \<and> ([(iter_dim 2, Some True)] = []
          \<or> fst (hd [(iter_dim 2, Some True)])
             \<noteq> map_or_identity (view_mapConsumerToProducer view_far) (iter_dim 4))"
    by (simp add: view_far_def view_far_in_def preferredLayout_TensorView empty_result_def
          getMaybeAllocationDomain_def map_or_identity_def iter_dim_def upt_rec numeral_3_eq_3
          vec_at_def lhm_pushBack_def lhm_insert_def)
  have r2: "dispatch empty_result (IsViewOp view_far) = Inr empty_result"
    using soft_refusal [where view = view_far and analysis = empty_result and in_layout = ?far
        and ?m0.0 = "[(iter_dim 1, Some True), (iter_dim 0, Some True), (iter_dim 2, Some True)]"
        and pre = "[]" and post = "[]" and m_outer = "iter_dim 3" and m_inner = "iter_dim 4"
        and m_out = "iter_dim 6" and ms = "[(iter_dim 1, Some True)]" and oc = "Some True"
        and rest = "[(iter_dim 2, Some True)]"] a2
    by blast
  have m3: "mergeContiguity (iter_dim 0) (Some False) (iter_dim 1) (Some True) = Inr (False, None)"
    by (simp add: mergeContiguity_def iter_dim_def)
  have a3: "preferredLayout empty_result (TensorViewVal (view_in view_strided)) = Inr ?strided
      \<and> collect_allocation ?strided [0..<length (allocation_domain ?strided)] []
          = Inr [(iter_dim 0, Some False), (iter_dim 1, Some True)]
      \<and> view_exprsBetween view_strided = [] @ Merge (iter_dim 3) (iter_dim 4) (iter_dim 6) # []
      \<and> replay (view_mapConsumerToProducer view_strided) []
            [(iter_dim 0, Some False), (iter_dim 1, Some True)] =
          Inr (Some ([]
                 @ (map_or_identity (view_mapConsumerToProducer view_strided) (iter_dim 3), Some False)
                 # (map_or_identity (view_mapConsumerToProducer view_strided) (iter_dim 4), Some True)
                 # []))
      \<and> map_or_identity (view_mapConsumerToProducer view_strided) (iter_dim 3) \<notin> fst ` set []
      \<and> map_or_identity (view_mapConsumerToProducer view_strided) (iter_dim 4) \<notin> fst ` set []
      \<and> mergeContiguity (map_or_identity (view_mapConsumerToProducer view_strided) (iter_dim 3))
           (Some False)
           (map_or_identity (view_mapConsumerToProducer view_strided) (iter_dim 4)) (Some True)
          = Inr (False, None)"
    using m3
    by (simp add: view_strided_def view_strided_in_def plain_tensor_def preferredLayout_TensorView
          empty_result_def getMaybeAllocationDomain_def getMaybeRFactorDomain_def
          map_or_identity_def iter_dim_def upt_rec numeral_2_eq_2 vec_at_def lhm_pushBack_def
          lhm_insert_def)
  have r3: "dispatch empty_result (IsViewOp view_strided) = Inr empty_result"
    using soft_refusal [where view = view_strided and analysis = empty_result
        and in_layout = ?strided
        and ?m0.0 = "[(iter_dim 0, Some False), (iter_dim 1, Some True)]"
        and pre = "[]" and post = "[]" and m_outer = "iter_dim 3" and m_inner = "iter_dim 4"
        and m_out = "iter_dim 6" and ms = "[]" and oc = "Some False" and ic = "Some True"
        and rest = "[]" and c = None] a3
    by blast
  from p1 r1 c2 r2 m3 r3 show ?thesis
    by blast
qed

subsection \<open>The layout invariant\<close>

lemma slice_red_run:
  "handle_SliceOp empty_result slice_red = Inr slice_red_result"
  by (simp add: slice_red_result_def handle_SliceOp_def slice_red_def slice_red_in_def
        slice_red_out_def slice_red_layout_def
        plain_tensor_def iter_dim_def reduction_dim_def getMaybeRFactorDomain_def Let_def
        empty_result_def preferredLayout_TensorView getMaybeAllocationDomain_def
        computePermutation_def vec_at_def map_at_def add_def upt_rec numeral_2_eq_2)

lemma slice_red_findAliases:
  "findAliases slice_red_fusion False = Some (Inr slice_red_result)"
  using slice_red_run
  by (simp add: findAliases_def slice_red_fusion_def dispatch_def finalize_def
        slice_red_result_def findNearestAliasedIo_def findNearestAliasedIo_loop.simps
        slice_red_in_def slice_red_out_def plain_tensor_def preferredLayout_TensorView
        okToRelayout_def isCompliantWith_def getMaybeAllocationDomain_def
        getMaybeRFactorDomain_def slice_red_layout_def vec_at_def contiguityIsCompliant_def
        upt_rec numeral_2_eq_2)

lemma is_permutation_mset: "is_permutation xs ys \<Longrightarrow> mset xs = mset ys"
proof (induction xs arbitrary: ys)
  case Nil
  then show ?case by simp
next
  case (Cons x xs)
  then have mem: "x \<in> set ys" and rest: "is_permutation xs (remove1 x ys)"
    by auto
  from Cons.IH [OF rest] have "mset xs = mset ys - {#x#}"
    by simp
  with mem show ?case
    by simp
qed

lemma is_permutation_filter_length:
  "is_permutation xs ys \<Longrightarrow> length (filter P xs) = length (filter P ys)"
proof -
  assume "is_permutation xs ys"
  then have "mset xs = mset ys"
    by (rule is_permutation_mset)
  then have "mset (filter P xs) = mset (filter P ys)"
    by (simp only: mset_filter)
  then show ?thesis
    by (rule mset_eq_length)
qed

lemma push_back_ok: "layout_ok l \<Longrightarrow> layout_ok (push_back l d c)"
  by (simp add: layout_ok_def push_back_def)

lemma layout_of_map_ok: "layout_ok acc \<Longrightarrow> layout_ok (layout_of_map p2c m acc)"
  by (induction m arbitrary: acc) (auto simp: push_back_ok)

lemma map_allocation_loop_ok:
  "map_allocation_loop in_layout p2c is acc = Inr out_layout \<Longrightarrow> layout_ok acc \<Longrightarrow>
     layout_ok out_layout"
  by (induction "is" arbitrary: acc)
     (auto simp: Let_def push_back_ok split: if_splits sum.splits)

lemma squeeze_loop_ok:
  "squeeze_loop in_layout p2c is acc = Inr out_layout \<Longrightarrow> layout_ok acc \<Longrightarrow>
     layout_ok out_layout"
  by (induction "is" arbitrary: acc)
     (auto simp: Let_def push_back_ok split: if_splits sum.splits)

lemma append_broadcast_dims_ok:
  "layout_ok acc \<Longrightarrow> layout_ok (append_broadcast_dims is_bcast out_rfactor is acc)"
  by (induction "is" arbitrary: acc) (auto simp: push_back_ok)

lemma empty_layout_ok: "layout_ok empty_layout"
  by (simp add: layout_ok_def empty_layout_def)

lemma add_ok:
  "add a al src lay = Inr a' \<Longrightarrow> result_ok a \<Longrightarrow> layout_ok lay \<Longrightarrow> result_ok a'"
  by (auto simp: add_def result_ok_def split: option.splits if_splits)


lemma computePermutation_is_permutation:
  "computePermutation xs ys \<noteq> None \<Longrightarrow> is_permutation xs ys"
  by (simp add: computePermutation_def split: if_splits)

lemma handle_ViewOp_ok:
  assumes "handle_ViewOp a view = Inr a'" "result_ok a"
  shows "result_ok a'"
proof -
  from assms(1) have "a' = a \<or>
      (\<exists>m. add a (view_out view) (view_in view)
                 (layout_of_map (view_mapProducerToConsumer view) m empty_layout) = Inr a')"
    by (simp add: handle_ViewOp_def Let_def split: sum.splits if_splits option.splits) blast
  then show ?thesis
  proof
    assume "a' = a"
    with assms(2) show ?thesis by simp
  next
    assume "\<exists>m. add a (view_out view) (view_in view)
                 (layout_of_map (view_mapProducerToConsumer view) m empty_layout) = Inr a'"
    then obtain m where reg: "add a (view_out view) (view_in view)
                 (layout_of_map (view_mapProducerToConsumer view) m empty_layout) = Inr a'"
      by blast
    from add_ok [OF reg assms(2) layout_of_map_ok [OF empty_layout_ok]] show ?thesis .
  qed
qed

lemma handle_LoadStoreOp_ok:
  assumes "handle_LoadStoreOp a permute = Inr a'" "result_ok a"
  shows "result_ok a'"
proof -
  from assms(1) have "a' = a \<or>
      (\<exists>inp in_layout idx out_layout.
        map_allocation_loop in_layout (permute_mapProducerToConsumer permute) idx empty_layout
           = Inr out_layout
        \<and> add a (permute_out permute) inp out_layout = Inr a')"
    by (simp add: handle_LoadStoreOp_def split: sum.splits if_splits Val.splits) blast
  then show ?thesis
  proof
    assume "a' = a"
    with assms(2) show ?thesis by simp
  next
    assume "\<exists>inp in_layout idx out_layout.
        map_allocation_loop in_layout (permute_mapProducerToConsumer permute) idx empty_layout
           = Inr out_layout
        \<and> add a (permute_out permute) inp out_layout = Inr a'"
    then obtain inp in_layout idx out_layout where
      loop: "map_allocation_loop in_layout (permute_mapProducerToConsumer permute) idx empty_layout
           = Inr out_layout" and
      reg: "add a (permute_out permute) inp out_layout = Inr a'"
      by blast
    from add_ok [OF reg assms(2) map_allocation_loop_ok [OF loop empty_layout_ok]]
    show ?thesis .
  qed
qed

lemma handle_BroadcastOp_ok:
  assumes "handle_BroadcastOp a bcast = Inr a'" "result_ok a"
  shows "result_ok a'"
proof -
  from assms(1) have "a' = a \<or>
      (\<exists>inp in_layout idx out_layout js.
        map_allocation_loop in_layout (bcast_mapProducerToConsumer bcast) idx empty_layout
           = Inr out_layout
        \<and> add a (bcast_out bcast) inp
           (append_broadcast_dims (isBroadcastDim bcast)
              (getMaybeRFactorDomain (bcast_out bcast)) js out_layout) = Inr a')"
    by (simp add: handle_BroadcastOp_def Let_def split: sum.splits if_splits Val.splits) blast
  then show ?thesis
  proof
    assume "a' = a"
    with assms(2) show ?thesis by simp
  next
    assume "\<exists>inp in_layout idx out_layout js.
        map_allocation_loop in_layout (bcast_mapProducerToConsumer bcast) idx empty_layout
           = Inr out_layout
        \<and> add a (bcast_out bcast) inp
           (append_broadcast_dims (isBroadcastDim bcast)
              (getMaybeRFactorDomain (bcast_out bcast)) js out_layout) = Inr a'"
    then obtain inp in_layout idx out_layout js where
      loop: "map_allocation_loop in_layout (bcast_mapProducerToConsumer bcast) idx empty_layout
           = Inr out_layout" and
      reg: "add a (bcast_out bcast) inp
           (append_broadcast_dims (isBroadcastDim bcast)
              (getMaybeRFactorDomain (bcast_out bcast)) js out_layout) = Inr a'"
      by blast
    from add_ok [OF reg assms(2)
           append_broadcast_dims_ok [OF map_allocation_loop_ok [OF loop empty_layout_ok]]]
    show ?thesis .
  qed
qed

lemma handle_SqueezeOp_ok:
  assumes "handle_SqueezeOp a squeeze = Inr a'" "result_ok a"
  shows "result_ok a'"
proof -
  from assms(1) have "a' = a \<or>
      (\<exists>inp in_layout idx out_layout.
        squeeze_loop in_layout (squeeze_mapProducerToConsumer squeeze) idx empty_layout
           = Inr out_layout
        \<and> add a (squeeze_out squeeze) inp out_layout = Inr a')"
    by (simp add: handle_SqueezeOp_def split: sum.splits if_splits Val.splits) blast
  then show ?thesis
  proof
    assume "a' = a"
    with assms(2) show ?thesis by simp
  next
    assume "\<exists>inp in_layout idx out_layout.
        squeeze_loop in_layout (squeeze_mapProducerToConsumer squeeze) idx empty_layout
           = Inr out_layout
        \<and> add a (squeeze_out squeeze) inp out_layout = Inr a'"
    then obtain inp in_layout idx out_layout where
      loop: "squeeze_loop in_layout (squeeze_mapProducerToConsumer squeeze) idx empty_layout
           = Inr out_layout" and
      reg: "add a (squeeze_out squeeze) inp out_layout = Inr a'"
      by blast
    from add_ok [OF reg assms(2) squeeze_loop_ok [OF loop empty_layout_ok]]
    show ?thesis .
  qed
qed

lemma handle_SliceOp_ok:
  assumes "handle_SliceOp a slice = Inr a'" "result_ok a" "slice_ok slice"
  shows "result_ok a'"
proof -
  define n where "n = length (getMaybeRFactorDomain (slice_out slice))"
  obtain in_layout where pl: "preferredLayout a (TensorViewVal (slice_in slice)) = Inr in_layout"
    by (simp add: preferredLayout_TensorView)
  from assms(1) obtain r2rf where
    build: "build_out_root_to_rfactor (getRootDomain (slice_out slice))
              (getMaybeRFactorDomain (slice_out slice)) [0..<n] Map.empty = Inr r2rf"
    unfolding n_def by (auto simp: handle_SliceOp_def Let_def split: sum.splits)
  show ?thesis
  proof (cases "computePermutation (getMaybeRFactorDomain (slice_in slice))
                  (allocation_domain in_layout) = None")
    case True
    with assms(1) build pl have "a' = a"
      by (simp add: handle_SliceOp_def Let_def n_def)
    with assms(2) show ?thesis by simp
  next
    case False
    with assms(1) build pl obtain out_alloc where
      loop: "slice_allocation_loop (slice_mapProducerToConsumer slice) r2rf
               (allocation_domain in_layout) [] = Inr out_alloc"
      by (auto simp: handle_SliceOp_def Let_def n_def split: sum.splits)
    with False assms(1) build pl obtain out_c where
      scan: "slice_scan out_alloc (contiguity in_layout) (slice_hasResize slice) n False
               (replicate n None) = Inr out_c"
      by (auto simp: handle_SliceOp_def Let_def n_def split: sum.splits)
    with False loop assms(1) build pl have
      reg: "add a (slice_out slice) (slice_in slice)
              \<lparr>allocation_domain = out_alloc, contiguity = out_c\<rparr> = Inr a'"
      by (auto simp: handle_SliceOp_def Let_def n_def)
    from False have perm: "is_permutation (getMaybeRFactorDomain (slice_in slice))
                             (allocation_domain in_layout)"
      by (rule computePermutation_is_permutation)
    from is_permutation_filter_length [OF perm]
    have "length (filter (\<lambda>d. \<not> isReduction d) (allocation_domain in_layout)) = n"
      using assms(3) by (simp add: slice_ok_def n_def)
    with slice_allocation_loop_length [OF loop] have "length out_alloc = n"
      by simp
    moreover from slice_scan_result [OF scan] have "length out_c = n"
      by simp
    ultimately have "layout_ok \<lparr>allocation_domain = out_alloc, contiguity = out_c\<rparr>"
      by (simp add: layout_ok_def)
    from add_ok [OF reg assms(2) this] show ?thesis .
  qed
qed

lemma dispatch_ok:
  assumes "dispatch a expr = Inr a'" "result_ok a"
      and "\<forall>slice. expr = IsSliceOp slice \<longrightarrow> slice_ok slice"
  shows "result_ok a'"
  using assms
  by (cases expr)
     (auto simp: dispatch_def
           intro: handle_ViewOp_ok handle_LoadStoreOp_ok handle_SliceOp_ok
                  handle_BroadcastOp_ok handle_SqueezeOp_ok)

lemma dispatch_all_ok:
  "dispatch_all es a = Inr a' \<Longrightarrow> result_ok a \<Longrightarrow>
     \<forall>slice. IsSliceOp slice \<in> set es \<longrightarrow> slice_ok slice \<Longrightarrow> result_ok a'"
proof (induction es arbitrary: a)
  case Nil
  then show ?case by simp
next
  case (Cons e es)
  from Cons.prems(1) obtain a1 where
    d: "dispatch a e = Inr a1" and rest: "dispatch_all es a1 = Inr a'"
    by (auto split: sum.splits)
  have "result_ok a1"
    using dispatch_ok [OF d Cons.prems(2)] Cons.prems(3) by auto
  from Cons.IH [OF rest this] Cons.prems(3) show ?case
    by auto
qed

lemma preferredLayout_ok:
  assumes "result_ok a" "tensor_ok tv" "preferredLayout a (TensorViewVal tv) = Inr layout"
  shows "layout_ok layout"
  using assms
  by (auto simp: preferredLayout_TensorView result_ok_def tensor_ok_def layout_ok_def
           split: option.splits)


lemma result_ok_empty: "result_ok empty_result"
  by (simp add: result_ok_def empty_result_def)

lemma finalize_keeps_aliases:
  "finalize a outs flag = Some (Inr a') \<Longrightarrow> alias_to_source a' = alias_to_source a"
  using finalize_loop_char [of flag "filterByType_TensorView outs" a a']
  by (simp add: finalize_def)

text \<open>
  C8. Every layout of the analysis has as many contiguity entries as dimensions: the
  preferred layout of a tensor that has one contiguity entry for each dimension of its
  allocation domain, when the registered layouts are such; the layouts registered after
  any rule has run, also when the rule skips reduction dimensions of the input (for a
  slice, when its output has one dimension for each dimension of the input that is not
  a reduction); and so every layout registered by a run of the whole analysis, and
  every preferred layout it returns afterwards.
\<close>

theorem layout_invariant:
  "(result_ok a \<and> tensor_ok tv \<and> preferredLayout a (TensorViewVal tv) = Inr layout
      \<longrightarrow> layout_ok layout)
   \<and> (result_ok a \<and> dispatch a expr = Inr a'
       \<and> (\<forall>slice. expr = IsSliceOp slice \<longrightarrow> slice_ok slice)
      \<longrightarrow> result_ok a')
   \<and> (findAliases fusion flag = Some (Inr final)
       \<and> (\<forall>slice. IsSliceOp slice \<in> set (exprs fusion) \<longrightarrow> slice_ok slice)
      \<longrightarrow> result_ok final
          \<and> (\<forall>t. tensor_ok t \<longrightarrow>
                (\<exists>l. preferredLayout final (TensorViewVal t) = Inr l \<and> layout_ok l)))"
proof (intro conjI impI)
  assume "result_ok a \<and> tensor_ok tv \<and> preferredLayout a (TensorViewVal tv) = Inr layout"
  then show "layout_ok layout"
    using preferredLayout_ok by blast
next
  assume "result_ok a \<and> dispatch a expr = Inr a'
       \<and> (\<forall>slice. expr = IsSliceOp slice \<longrightarrow> slice_ok slice)"
  then show "result_ok a'"
    using dispatch_ok by blast
next
  assume H: "findAliases fusion flag = Some (Inr final)
       \<and> (\<forall>slice. IsSliceOp slice \<in> set (exprs fusion) \<longrightarrow> slice_ok slice)"
  then obtain mid where
    d: "dispatch_all (exprs fusion) empty_result = Inr mid" and
    f: "finalize mid (outputs fusion) flag = Some (Inr final)"
    by (auto simp: findAliases_def split: sum.splits)
  from H have "\<forall>slice. IsSliceOp slice \<in> set (exprs fusion) \<longrightarrow> slice_ok slice"
    by blast
  from dispatch_all_ok [OF d result_ok_empty this] have "result_ok mid" .
  with finalize_keeps_aliases [OF f] show ok: "result_ok final"
    by (simp add: result_ok_def)
  show "\<forall>t. tensor_ok t \<longrightarrow>
          (\<exists>l. preferredLayout final (TensorViewVal t) = Inr l \<and> layout_ok l)"
  proof (intro allI impI)
    fix t
    assume t: "tensor_ok t"
    obtain l where l: "preferredLayout final (TensorViewVal t) = Inr l"
      by (simp add: preferredLayout_TensorView)
    from preferredLayout_ok [OF ok t l] l
    show "\<exists>l. preferredLayout final (TensorViewVal t) = Inr l \<and> layout_ok l"
      by blast
  qed
qed

theorem layout_invariant_witness:
  "slice_ok slice_red
   \<and> filter isReduction (getMaybeAllocationDomain slice_red_in) = [reduction_dim 0]
   \<and> dispatch empty_result (IsSliceOp slice_red) = Inr slice_red_result
   \<and> findAliases slice_red_fusion False = Some (Inr slice_red_result)
   \<and> tensor_ok slice_red_out
   \<and> preferredLayout slice_red_result (TensorViewVal slice_red_out) = Inr slice_red_layout
   \<and> layout_ok slice_red_layout"
proof -
  have s: "slice_ok slice_red"
    by (simp add: slice_ok_def slice_red_def slice_red_in_def slice_red_out_def plain_tensor_def
          getMaybeRFactorDomain_def iter_dim_def reduction_dim_def)
  have r: "filter isReduction (getMaybeAllocationDomain slice_red_in) = [reduction_dim 0]"
    by (simp add: slice_red_in_def plain_tensor_def getMaybeAllocationDomain_def
          getMaybeRFactorDomain_def iter_dim_def reduction_dim_def)
  have d: "dispatch empty_result (IsSliceOp slice_red) = Inr slice_red_result"
    using slice_red_run by (simp add: dispatch_def)
  have t: "tensor_ok slice_red_out"
    by (simp add: tensor_ok_def slice_red_out_def getMaybeAllocationDomain_def
          getMaybeRFactorDomain_def)
  have p: "preferredLayout slice_red_result (TensorViewVal slice_red_out) = Inr slice_red_layout"
    by (simp add: preferredLayout_TensorView slice_red_result_def)
  have all: "\<forall>slice. IsSliceOp slice \<in> set (exprs slice_red_fusion) \<longrightarrow> slice_ok slice"
    using s by (simp add: slice_red_fusion_def)
  from layout_invariant [of _ _ _ _ _ slice_red_fusion False slice_red_result]
    slice_red_findAliases all
  have ok: "result_ok slice_red_result"
    by blast
  from layout_invariant [of slice_red_result slice_red_out slice_red_layout] ok t p
  have "layout_ok slice_red_layout"
    by blast
  with s r d slice_red_findAliases t p show ?thesis
    by blast
qed

subsection \<open>Split and merge round trip\<close>

lemma split_merge_roundtrip_iff:
  "split_then_merge outer_id inner_id c = Inr (True, c)
   \<longleftrightarrow> (c = None \<or> (\<not> hasExpandedExtent outer_id \<and> \<not> hasExpandedExtent inner_id))"
  by (cases c) (auto simp: split_then_merge_def splitContiguity_def mergeContiguity_def)

lemma split_merge_wellformed:
  assumes "contiguity_ok outer_id (fst (splitContiguity c))"
      and "contiguity_ok inner_id (snd (splitContiguity c))"
  shows "split_then_merge outer_id inner_id c = Inr (True, c)"
proof (cases c)
  case None
  then show ?thesis
    by (simp add: split_merge_roundtrip_iff)
next
  case (Some b)
  with assms have "\<not> hasExpandedExtent outer_id \<and> \<not> hasExpandedExtent inner_id"
    by (cases b) (simp_all add: contiguity_ok_def splitContiguity_def)
  then show ?thesis
    by (simp add: split_merge_roundtrip_iff)
qed

lemma insert_before_at:
  "distinct (map fst (ms @ rest)) \<Longrightarrow>
     insert_before (case rest of [] \<Rightarrow> None | (k', _) # _ \<Rightarrow> Some k') entry (ms @ rest)
       = ms @ entry # rest"
proof (induction ms)
  case Nil
  show ?case
  proof (cases rest)
    case Nil
    then show ?thesis by simp
  next
    case (Cons r rs)
    then show ?thesis by (cases r) simp
  qed
next
  case (Cons m ms)
  let ?pos = "case rest of [] \<Rightarrow> None | (k', _) # _ \<Rightarrow> Some k'"
  obtain k v where m: "m = (k, v)" by (cases m)
  have d: "distinct (map fst (ms @ rest))"
    using Cons.prems by simp
  have k: "k \<notin> fst ` set rest"
    using Cons.prems m by auto
  have ne: "?pos \<noteq> Some k"
  proof (cases rest)
    case Nil
    then show ?thesis by simp
  next
    case (Cons r rs)
    with k show ?thesis by (cases r) auto
  qed
  have "insert_before ?pos entry ((k, v) # (ms @ rest))
          = (k, v) # insert_before ?pos entry (ms @ rest)"
    using ne by simp
  also have "\<dots> = (k, v) # (ms @ entry # rest)"
    using Cons.IH [OF d] by simp
  finally show ?case
    using m by simp
qed

lemma lhm_insert_at:
  "distinct (map fst (ms @ rest)) \<Longrightarrow> key \<notin> fst ` set (ms @ rest) \<Longrightarrow>
     lhm_insert (ms @ rest) (case rest of [] \<Rightarrow> None | (k', _) # _ \<Rightarrow> Some k') key v
       = Inr (ms @ (key, v) # rest)"
  by (simp add: lhm_insert_def insert_before_at del: set_append)

lemma replay_split_step:
  assumes d: "distinct (map fst (ms @ (key, c) # rest))"
      and k: "map_or_identity c2p s_in = key"
      and fresh: "outer_id \<notin> fst ` set (ms @ rest)" "inner_id \<notin> fst ` set (ms @ rest)"
                 "outer_id \<noteq> inner_id"
  shows "replay_step c2p (Split s_in outer_id inner_id) (ms @ (key, c) # rest)
           = Inr (Some (ms @ (outer_id, fst (splitContiguity c))
                           # (inner_id, snd (splitContiguity c)) # rest))"
proof -
  let ?next = "case rest of [] \<Rightarrow> None | (k', _) # _ \<Rightarrow> Some k'"
  obtain oc ic where sc: "splitContiguity c = (oc, ic)"
    by (cases "splitContiguity c")
  from d have knot: "key \<notin> fst ` set ms" and d1: "distinct (map fst (ms @ rest))"
    by auto
  have e: "lhm_erase (ms @ (key, c) # rest) key = Inr (c, ?next, ms @ rest)"
    by (rule lhm_erase_at [OF knot])
  have i1: "lhm_insert (ms @ rest) ?next outer_id oc = Inr (ms @ (outer_id, oc) # rest)"
    by (rule lhm_insert_at [OF d1 fresh(1)])
  have d2: "distinct (map fst ((ms @ [(outer_id, oc)]) @ rest))"
    using d1 fresh(1) by auto
  have f2: "inner_id \<notin> fst ` set ((ms @ [(outer_id, oc)]) @ rest)"
    using fresh(2,3) by auto
  have i2: "lhm_insert (ms @ (outer_id, oc) # rest) ?next inner_id ic
              = Inr (ms @ (outer_id, oc) # (inner_id, ic) # rest)"
    using lhm_insert_at [OF d2 f2, of ic] by simp
  have "replay_step c2p (Split s_in outer_id inner_id) (ms @ (key, c) # rest)
           = Inr (Some (ms @ (outer_id, oc) # (inner_id, ic) # rest))"
    by (simp only: replay_step.simps Let_def k e sc i1 i2 sum.case prod.case)
  then show ?thesis
    by (simp only: sc fst_conv snd_conv)
qed

lemma replay_merge_step:
  assumes d: "distinct (map fst (ms @ rest))"
      and ids: "map_or_identity c2p outer_id = outer_id" "map_or_identity c2p inner_id = inner_id"
      and fresh: "outer_id \<notin> fst ` set (ms @ rest)" "inner_id \<notin> fst ` set (ms @ rest)"
                 "merged \<notin> fst ` set (ms @ rest)"
      and m: "mergeContiguity outer_id oc inner_id ic = Inr (True, c)"
  shows "replay_step c2p (Merge outer_id inner_id merged)
           (ms @ (outer_id, oc) # (inner_id, ic) # rest)
           = Inr (Some (ms @ (merged, c) # rest))"
proof -
  let ?next = "case rest of [] \<Rightarrow> None | (k', _) # _ \<Rightarrow> Some k'"
  from fresh have o: "outer_id \<notin> fst ` set ms" and i: "inner_id \<notin> fst ` set ms"
    by auto
  have e1: "lhm_erase (ms @ (outer_id, oc) # (inner_id, ic) # rest) outer_id
              = Inr (oc, Some inner_id, ms @ (inner_id, ic) # rest)"
    using lhm_erase_at [OF o, of oc "(inner_id, ic) # rest"] by simp
  have e2: "lhm_erase (ms @ (inner_id, ic) # rest) inner_id = Inr (ic, ?next, ms @ rest)"
    by (rule lhm_erase_at [OF i])
  have i3: "lhm_insert (ms @ rest) ?next merged c = Inr (ms @ (merged, c) # rest)"
    by (rule lhm_insert_at [OF d fresh(3)])
  show ?thesis
    by (simp only: replay_step.simps Let_def ids e1 e2 i3 m sum.case prod.case
          not_True_eq_False not_False_eq_True if_False if_True simp_thms)
qed


text \<open>
  C7. Split and merge round trip, for dimensions whose contiguity is nullopt when they
  have an expanded extent: merging back the two children of a split, with the
  contiguities \<^verbatim>\<open>splitContiguity\<close> gave them, yields (true, c); and the replay of a
  split followed by the merge of its two children puts the merged dimension, with the
  contiguity c of the dimension that was split, at the place of that dimension in the
  allocation order and leaves the other entries as they were.
\<close>

theorem split_merge_roundtrip:
  "(contiguity_ok outer_id (fst (splitContiguity c))
    \<and> contiguity_ok inner_id (snd (splitContiguity c))
    \<longrightarrow> split_then_merge outer_id inner_id c = Inr (True, c))
   \<and> (contiguity_ok outer_id (fst (splitContiguity c))
      \<and> contiguity_ok inner_id (snd (splitContiguity c))
      \<and> distinct (map fst (ms @ (map_or_identity c2p s_in, c) # rest))
      \<and> map_or_identity c2p outer_id = outer_id
      \<and> map_or_identity c2p inner_id = inner_id
      \<and> outer_id \<noteq> inner_id
      \<and> outer_id \<notin> fst ` set (ms @ rest)
      \<and> inner_id \<notin> fst ` set (ms @ rest)
      \<and> merged \<notin> fst ` set (ms @ rest)
      \<longrightarrow> replay c2p [Split s_in outer_id inner_id, Merge outer_id inner_id merged]
             (ms @ (map_or_identity c2p s_in, c) # rest)
           = Inr (Some (ms @ (merged, c) # rest)))"
proof (intro conjI impI)
  assume "contiguity_ok outer_id (fst (splitContiguity c))
    \<and> contiguity_ok inner_id (snd (splitContiguity c))"
  then show "split_then_merge outer_id inner_id c = Inr (True, c)"
    using split_merge_wellformed by blast
next
  let ?key = "map_or_identity c2p s_in"
  let ?oc = "fst (splitContiguity c)"
  let ?ic = "snd (splitContiguity c)"
  assume H: "contiguity_ok outer_id ?oc \<and> contiguity_ok inner_id ?ic
      \<and> distinct (map fst (ms @ (?key, c) # rest))
      \<and> map_or_identity c2p outer_id = outer_id
      \<and> map_or_identity c2p inner_id = inner_id
      \<and> outer_id \<noteq> inner_id
      \<and> outer_id \<notin> fst ` set (ms @ rest)
      \<and> inner_id \<notin> fst ` set (ms @ rest)
      \<and> merged \<notin> fst ` set (ms @ rest)"
  then have wf: "contiguity_ok outer_id ?oc" "contiguity_ok inner_id ?ic"
    and d: "distinct (map fst (ms @ (?key, c) # rest))"
    and ids: "map_or_identity c2p outer_id = outer_id" "map_or_identity c2p inner_id = inner_id"
    and ne: "outer_id \<noteq> inner_id"
    and fresh: "outer_id \<notin> fst ` set (ms @ rest)" "inner_id \<notin> fst ` set (ms @ rest)"
               "merged \<notin> fst ` set (ms @ rest)"
    by blast+
  from d have d1: "distinct (map fst (ms @ rest))"
    by auto
  have m: "mergeContiguity outer_id ?oc inner_id ?ic = Inr (True, c)"
    using split_merge_wellformed [OF wf] by (simp add: split_then_merge_def split_beta)
  have s1: "replay_step c2p (Split s_in outer_id inner_id) (ms @ (?key, c) # rest)
              = Inr (Some (ms @ (outer_id, ?oc) # (inner_id, ?ic) # rest))"
    by (rule replay_split_step [OF d refl fresh(1,2) ne])
  have s2: "replay_step c2p (Merge outer_id inner_id merged)
              (ms @ (outer_id, ?oc) # (inner_id, ?ic) # rest)
              = Inr (Some (ms @ (merged, c) # rest))"
    by (rule replay_merge_step [OF d1 ids fresh m])
  show "replay c2p [Split s_in outer_id inner_id, Merge outer_id inner_id merged]
             (ms @ (?key, c) # rest)
           = Inr (Some (ms @ (merged, c) # rest))"
    by (simp only: replay.simps s1 s2 sum.case option.case)
qed

theorem split_merge_roundtrip_witness:
  "split_then_merge (iter_dim 5) (iter_dim 6) (Some False) = Inr (True, Some False)
   \<and> split_then_merge (expanded_dim 5) (expanded_dim 6) None = Inr (True, None)
   \<and> replay [iter_dim 3 \<mapsto> iter_dim 0]
        [Split (iter_dim 3) (iter_dim 5) (iter_dim 6), Merge (iter_dim 5) (iter_dim 6) (iter_dim 7)]
        [(iter_dim 0, Some False), (iter_dim 1, Some True)]
       = Inr (Some [(iter_dim 7, Some False), (iter_dim 1, Some True)])"
proof -
  have w1: "contiguity_ok (iter_dim 5) (fst (splitContiguity (Some False)))
    \<and> contiguity_ok (iter_dim 6) (snd (splitContiguity (Some False)))"
    by (simp add: contiguity_ok_def iter_dim_def)
  have w2: "contiguity_ok (expanded_dim 5) (fst (splitContiguity None))
    \<and> contiguity_ok (expanded_dim 6) (snd (splitContiguity None))"
    by (simp add: contiguity_ok_def splitContiguity_def)
  have r1: "split_then_merge (iter_dim 5) (iter_dim 6) (Some False) = Inr (True, Some False)"
    using split_merge_roundtrip [of "iter_dim 5" "Some False" "iter_dim 6"] w1 by blast
  have r2: "split_then_merge (expanded_dim 5) (expanded_dim 6) None = Inr (True, None)"
    using split_merge_roundtrip [of "expanded_dim 5" None "expanded_dim 6"] w2 by blast
  have h: "distinct (map fst ([] @ (map_or_identity [iter_dim 3 \<mapsto> iter_dim 0] (iter_dim 3), Some False)
                # [(iter_dim 1, Some True)]))
      \<and> map_or_identity [iter_dim 3 \<mapsto> iter_dim 0] (iter_dim 5) = iter_dim 5
      \<and> map_or_identity [iter_dim 3 \<mapsto> iter_dim 0] (iter_dim 6) = iter_dim 6
      \<and> iter_dim 5 \<noteq> iter_dim 6
      \<and> iter_dim 5 \<notin> fst ` set ([] @ [(iter_dim 1, Some True)])
      \<and> iter_dim 6 \<notin> fst ` set ([] @ [(iter_dim 1, Some True)])
      \<and> iter_dim 7 \<notin> fst ` set ([] @ [(iter_dim 1, Some True)])"
    by (simp add: map_or_identity_def iter_dim_def)
  have k: "map_or_identity [iter_dim 3 \<mapsto> iter_dim 0] (iter_dim 3) = iter_dim 0"
    by (simp add: map_or_identity_def)
  have r3: "replay [iter_dim 3 \<mapsto> iter_dim 0]
        [Split (iter_dim 3) (iter_dim 5) (iter_dim 6), Merge (iter_dim 5) (iter_dim 6) (iter_dim 7)]
        ([] @ (map_or_identity [iter_dim 3 \<mapsto> iter_dim 0] (iter_dim 3), Some False)
            # [(iter_dim 1, Some True)])
       = Inr (Some ([] @ (iter_dim 7, Some False) # [(iter_dim 1, Some True)]))"
    using split_merge_roundtrip [of "iter_dim 5" "Some False" "iter_dim 6" "[]"
            "[iter_dim 3 \<mapsto> iter_dim 0]" "iter_dim 3" "[(iter_dim 1, Some True)]" "iter_dim 7"]
          w1 h
    by blast
  from r1 r2 r3 show ?thesis
    by (simp only: k append_Nil) 
qed

end
